theory Spec2Isabelle
  imports Main "HOL-Library.Word"
begin

unbundle bit_operations_syntax

text \<open>
  This theory models the parts of API Extractor that build the graph of symbols and
  declarations (\<open>AstSymbolTable.ts\<close>), render canonical references
  (\<open>ApiMethod.ts\<close>), hold excerpts of declarations (\<open>Excerpt.ts\<close>) and drive a run
  (\<open>Extractor.ts\<close>), and proves properties of them. The first part holds the
  definitions, the second the properties.
\<close>

section \<open>Errors\<close>

text \<open>
  The members of the compiler's enumeration \<open>ts.SyntaxKind\<close> that the sources name,
  some kinds of declarations, and \<open>OtherKind\<close> for every other member.
\<close>

datatype SyntaxKind =
    JSDocComment | TypeReference | ExpressionWithTypeArguments | ComputedPropertyName
  | Identifier | SourceFile | TypeParameterKind | TypeLiteralKind
  | ClassDeclaration | InterfaceDeclaration | FunctionDeclaration | VariableDeclaration
  | EnumDeclaration | ModuleDeclaration | MethodDeclaration | PropertySignature
  | OtherKind nat

text \<open>
  The errors thrown. Each constructor stands for one \<open>throw new Error(...)\<close> of the
  sources and carries what the message is built from. \<open>CollaboratorError\<close> is an
  error thrown by code outside these sources, \<open>FrozenAfterAnalysis\<close> the error of
  extending a declaration whose symbol is analyzed, and \<open>InvalidReference\<close> the use of
  a reference that points to no object (JavaScript has no such reference).
\<close>

datatype error =
    InputFileNotAbsolute string \<comment> \<open>Extractor.ts, line 178\<close>
  | ConfigNotNormalized \<comment> \<open>Extractor.ts, line 332\<close>
  | EntryPointNotDeclarationFile string \<comment> \<open>Extractor.ts, line 336\<close>
  | CollaboratorError string
  | NotAnalyzed \<comment> \<open>AstSymbolTable.ts, line 165\<close>
  | ChildDeclarationNotFound \<comment> \<open>line 170\<close>
  | ChildNotAttached \<comment> \<open>line 173\<close>
  | SymbolNotFoundForIdentifier string \<comment> \<open>line 204\<close>
  | ConstructedAstDeclarationNotFound \<comment> \<open>line 233\<close>
  | SymbolNotFoundForNode \<comment> \<open>line 246\<close>
  | FollowedSymbolWithNoDeclarations \<comment> \<open>line 270\<close>
  | UnimplementedLanguageFeature string SyntaxKind \<comment> \<open>lines 319-320\<close>
  | ParentAstSymbolNotConstructed string \<comment> \<open>lines 345-346\<close>
  | MissingParentDeclaration \<comment> \<open>line 376\<close>
  | MissingParentAstDeclaration \<comment> \<open>line 381\<close>
  | ImportedAfterNonImported string \<comment> \<open>lines 401-402\<close>
  | FrozenAfterAnalysis
  | InvalidReference

section \<open>Canonical references of methods (ApiMethod.ts)\<close>

text \<open>
  A template literal renders a number with the ECMAScript Number-to-String conversion.
  \<open>overloadIndex\<close> is the 0-based position of an overload within its group, a
  non-negative integer; for such a number (below \<open>10^21\<close>) the conversion yields the
  decimal numeral without sign, leading zeros or fraction.
\<close>

definition digitChar :: "nat \<Rightarrow> char" where
  "digitChar d = ''0123456789'' ! d"

fun numberToString :: "nat \<Rightarrow> string" where
  "numberToString n =
     (if n < 10 then [digitChar n]
      else numberToString (n div 10) @ [digitChar (n mod 10)])"

declare numberToString.simps [simp del]

text \<open>\<open>ApiMethod.getCanonicalReference\<close>, lines 27-33: two template literals.\<close>

definition getCanonicalReference :: "string \<Rightarrow> bool \<Rightarrow> nat \<Rightarrow> string" where
  "getCanonicalReference name isStatic overloadIndex =
     (if isStatic
      then ''('' @ name @ '':static,'' @ numberToString overloadIndex @ '')''
      else ''('' @ name @ '':instance,'' @ numberToString overloadIndex @ '')'')"

text \<open>
  The fields of an \<open>ApiMethod\<close> that its canonical reference reads. They are
  provided by the mixins of the class (the name by the item, \<open>isStatic\<close> by the
  static mixin, \<open>overloadIndex\<close> by the function-like mixin).
\<close>

record ApiMethod =
  name :: string
  isStatic :: bool
  overloadIndex :: nat

text \<open>The getter \<open>ApiMethod.canonicalReference\<close>, lines 46-49.\<close>

definition canonicalReference :: "ApiMethod \<Rightarrow> string" where
  "canonicalReference this =
     getCanonicalReference (name this) (isStatic this) (overloadIndex this)"

section \<open>Excerpts (Excerpt.ts)\<close>

datatype ExcerptTokenKind = Content | Reference

record ExcerptToken =
  kind :: ExcerptTokenKind
  tokenText :: string

record IExcerptTokenRange =
  startIndex :: int
  endIndex :: int

text \<open>
  \<open>Array.prototype.slice(start, end)\<close> for integer arguments: a negative index counts
  from the end of the array, every index is clamped to \<open>[0, length]\<close>, and the result
  is empty when the clamped end does not exceed the clamped start.
\<close>

definition slice :: "'a list \<Rightarrow> int \<Rightarrow> int \<Rightarrow> 'a list" where
  "slice xs start fin =
     (let len = int (length xs);
          k = (if start < 0 then max (len + start) 0 else min start len);
          final = (if fin < 0 then max (len + fin) 0 else min fin len)
      in take (nat (final - k)) (drop (nat k) xs))"

text \<open>\<open>Array.prototype.join('')\<close> of an array of strings.\<close>

definition join_empty :: "string list \<Rightarrow> string" where
  "join_empty ss = concat ss"

text \<open>
  An \<open>Excerpt\<close> object: the two public fields and the private cache \<open>_text\<close>
  (\<open>None\<close> is \<open>undefined\<close>).
\<close>

record Excerpt =
  tokenRange :: IExcerptTokenRange
  tokens :: "ExcerptToken list"
  cachedText :: "string option"

text \<open>The constructor, lines 190-193: the cache starts undefined.\<close>

definition new_Excerpt :: "ExcerptToken list \<Rightarrow> IExcerptTokenRange \<Rightarrow> Excerpt" where
  "new_Excerpt toks rng = \<lparr> tokenRange = rng, tokens = toks, cachedText = None \<rparr>"

text \<open>
  What a first access computes (lines 197-198):
  \<open>tokens.slice(startIndex, endIndex).map(x => x.text).join('')\<close>.
\<close>

definition computeText :: "Excerpt \<Rightarrow> string" where
  "computeText this =
     join_empty (map tokenText
       (slice (tokens this) (startIndex (tokenRange this)) (endIndex (tokenRange this))))"

text \<open>
  The getter \<open>Excerpt.text\<close>, lines 195-201. It may assign the private field, so
  it returns the string together with the object after the access.
\<close>

definition Excerpt_text :: "Excerpt \<Rightarrow> string \<times> Excerpt" where
  "Excerpt_text this =
     (case cachedText this of
        None \<Rightarrow> (let s = computeText this in (s, this\<lparr>cachedText := Some s\<rparr>))
      | Some s \<Rightarrow> (s, this))"

text \<open>
  The reading of the specification: the texts of the tokens whose index lies in the
  half-open range \<open>[startIndex, endIndex)\<close>, concatenated in the order of the sequence.
\<close>

definition rangeText :: "ExcerptToken list \<Rightarrow> int \<Rightarrow> int \<Rightarrow> string" where
  "rangeText toks s e =
     concat (map (\<lambda>i. tokenText (toks ! i))
       (filter (\<lambda>i. s \<le> int i \<and> int i < e) [0..<length toks]))"

section \<open>The extractor front end (Extractor.ts)\<close>

text \<open>
  \<open>Extractor._declarationFileExtensionRegExp.test\<close> for the regular expression
  \<open>/\.d\.ts$/i\<close> (line 136): the last five characters of the input are \<open>.d.ts\<close>
  up to the case of the three letters. The expression has the flag \<open>i\<close> but not the
  flag \<open>u\<close>; a character of the input is then compared by its canonical form, which
  for an ASCII letter is its capital and which never turns a character outside ASCII
  into an ASCII one, so that \<open>d\<close>, \<open>t\<close> and \<open>s\<close> match themselves and their capitals
  only. The expression has no \<open>g\<close> flag, so \<open>test\<close> keeps no state.
\<close>

definition canonicalize :: "char \<Rightarrow> char" where
  "canonicalize c =
     (case map_of (zip ''abcdefghijklmnopqrstuvwxyz'' ''ABCDEFGHIJKLMNOPQRSTUVWXYZ'') c of
        Some u \<Rightarrow> u
      | None \<Rightarrow> c)"

definition declarationFileExtensionRegExp_test :: "string \<Rightarrow> bool" where
  "declarationFileExtensionRegExp_test s =
     (5 \<le> length s \<and>
      map canonicalize (drop (length s - 5) s) = map canonicalize ''.d.ts'')"

text \<open>
  The loop of \<open>Extractor.generateFilePathsForAnalysis\<close>, lines 172-185, over the rest
  of the input, with the two local variables \<open>seenFiles\<close> and \<open>analysisFilePaths\<close>.
  Two functions of the platform are parameters: \<open>String.prototype.toUpperCase\<close>, whose
  result follows the case mappings of Unicode and may be longer than the string it is
  applied to, and \<open>path.isAbsolute\<close>, which differs between POSIX and Windows.
\<close>

fun generateFilePathsForAnalysis_loop ::
  "(string \<Rightarrow> string) \<Rightarrow> (string \<Rightarrow> bool) \<Rightarrow> string list \<Rightarrow> string set \<Rightarrow> string list
     \<Rightarrow> error + string list" where
  "generateFilePathsForAnalysis_loop toUpperCase isAbsolute [] seenFiles analysisFilePaths =
     Inr analysisFilePaths"
| "generateFilePathsForAnalysis_loop toUpperCase isAbsolute (inputFilePath # rest) seenFiles
       analysisFilePaths =
     (let inputFileToUpper = toUpperCase inputFilePath in
      if inputFileToUpper \<notin> seenFiles then
        if \<not> isAbsolute inputFilePath then Inl (InputFileNotAbsolute inputFilePath)
        else generateFilePathsForAnalysis_loop toUpperCase isAbsolute rest
               (insert inputFileToUpper seenFiles)
               (if declarationFileExtensionRegExp_test inputFilePath
                then analysisFilePaths @ [inputFilePath] else analysisFilePaths)
      else generateFilePathsForAnalysis_loop toUpperCase isAbsolute rest seenFiles analysisFilePaths)"

definition generateFilePathsForAnalysis ::
  "(string \<Rightarrow> string) \<Rightarrow> (string \<Rightarrow> bool) \<Rightarrow> string list \<Rightarrow> error + string list" where
  "generateFilePathsForAnalysis toUpperCase isAbsolute inputFilePaths =
     generateFilePathsForAnalysis_loop toUpperCase isAbsolute inputFilePaths {} []"

text \<open>
  For the examples: \<open>toUpperCase\<close> on strings of ASCII characters, where it replaces
  the letters \<open>a\<close> to \<open>z\<close> by their capitals, and \<open>path.isAbsolute\<close> of the POSIX
  flavour of Node's \<open>path\<close> module.
\<close>

definition ascii_toUpperCase :: "string \<Rightarrow> string" where
  "ascii_toUpperCase s = map canonicalize s"

definition posix_isAbsolute :: "string \<Rightarrow> bool" where
  "posix_isAbsolute p = (case p of [] \<Rightarrow> False | c # _ \<Rightarrow> c = CHR ''/'')"

text \<open>
  The reading of the claim: the paths at their first occurrence up to letter case, that
  is, the paths whose upper-case form is that of no earlier path, in the order of the
  input.
\<close>

definition firstOccurrences :: "(string \<Rightarrow> string) \<Rightarrow> string list \<Rightarrow> string list" where
  "firstOccurrences toUpperCase ps =
     map (\<lambda>i. ps ! i)
       (filter (\<lambda>i. toUpperCase (ps ! i) \<notin> toUpperCase ` set (take i ps)) [0..<length ps])"

text \<open>The same list, computed from left to right with the set of upper-case forms seen so far.\<close>

fun firstOccurrencesFrom :: "(string \<Rightarrow> string) \<Rightarrow> string set \<Rightarrow> string list \<Rightarrow> string list" where
  "firstOccurrencesFrom toUpperCase seen [] = []"
| "firstOccurrencesFrom toUpperCase seen (p # ps) =
     (if toUpperCase p \<in> seen then firstOccurrencesFrom toUpperCase seen ps
      else p # firstOccurrencesFrom toUpperCase (insert (toUpperCase p) seen) ps)"

subsection \<open>processProject\<close>
















section \<open>The symbol table (AstSymbolTable.ts)\<close>

subsection \<open>What the compiler provides\<close>

text \<open>
  A \<open>ts.Symbol\<close> and a \<open>ts.Node\<close> are objects of the TypeScript compiler, compared
  by identity; each is represented by a number that names the object.
\<close>

type_synonym tsSymbol = nat
type_synonym tsNode = nat

text \<open>
  Modelled from the spec: \<open>AstImport\<close> (its source file is not among the sources),
  the pair of a package name and an exported name; its key identifies the pair.
\<close>

record AstImport =
  packageName :: string
  exportedName :: string

definition importKey :: "AstImport \<Rightarrow> string \<times> string" where
  "importKey i = (packageName i, exportedName i)"

text \<open>
  The result of \<open>SymbolAnalyzer.followAliases\<close>: the fields \<open>followedSymbol\<close>,
  \<open>localName\<close>, \<open>astImport\<close> and \<open>isAmbient\<close> of \<open>IFollowAliasesResult\<close>.
\<close>

record IFollowAliasesResult =
  far_followedSymbol :: tsSymbol
  far_localName :: string
  far_astImport :: "AstImport option"
  far_isAmbient :: bool

text \<open>
  The read-only surroundings of the table: the compiler's program and type checker, and
  the helpers \<open>SymbolAnalyzer\<close>, \<open>TypeScriptHelpers\<close> and
  \<open>PackageMetadataManager\<close>, whose sources are not among the sources. They are
  parameters of the model, one field for each property or function that the table reads
  or calls: \<open>symbolFlags\<close>, \<open>symbolName\<close> and \<open>symbolDeclarations\<close> are the
  fields \<open>flags\<close>, \<open>name\<close> and \<open>declarations\<close> of a \<open>ts.Symbol\<close>;
  \<open>nodeKind\<close>, \<open>nodeChildren\<close>, \<open>nodeText\<close> and \<open>nodeSourceFile\<close> are
  \<open>kind\<close>, \<open>getChildren()\<close>, \<open>getText()\<close> and \<open>getSourceFile()\<close> of a
  \<open>ts.Node\<close>; \<open>nodeAncestors\<close> is the chain \<open>node.parent\<close>,
  \<open>node.parent.parent\<close>, ... of a node of the finite syntax tree, up to the root.
  \<open>None\<close> stands for \<open>undefined\<close>, and for a helper that throws instead of returning
  a symbol.
\<close>

record TsProgram =
  followAliases :: "tsSymbol \<Rightarrow> IFollowAliasesResult"
  symbolFlags :: "tsSymbol \<Rightarrow> 32 word"
  symbolName :: "tsSymbol \<Rightarrow> string"
  symbolDeclarations :: "tsSymbol \<Rightarrow> tsNode list option"
  nodeKind :: "tsNode \<Rightarrow> SyntaxKind"
  nodeAncestors :: "tsNode \<Rightarrow> tsNode list"
  nodeChildren :: "tsNode \<Rightarrow> tsNode list"
  nodeText :: "tsNode \<Rightarrow> string"
  nodeSourceFile :: "tsNode \<Rightarrow> tsNode"
  sourceFileName :: "tsNode \<Rightarrow> string"
  isSourceFileFromExternalLibrary :: "tsNode \<Rightarrow> bool"
  isAedocSupportedFor :: "string \<Rightarrow> bool"
  isAstDeclaration :: "SyntaxKind \<Rightarrow> bool"
  getSymbolForDeclaration :: "tsNode \<Rightarrow> tsSymbol option"
  getSymbolAtLocation :: "tsNode \<Rightarrow> tsSymbol option"
  findFirstChildNode :: "tsNode \<Rightarrow> SyntaxKind \<Rightarrow> tsNode option"

text \<open>
  The members of the compiler's enumeration \<open>ts.SymbolFlags\<close> that the table tests:
  \<open>TypeLiteral = 1 << 11\<close>, \<open>TypeParameter = 1 << 18\<close> and
  \<open>Transient = 1 << 25\<close>. The bitwise operators of JavaScript work on 32-bit integers.
\<close>

definition SymbolFlags_TypeLiteral :: "32 word" where
  "SymbolFlags_TypeLiteral = 2048"

definition SymbolFlags_TypeParameter :: "32 word" where
  "SymbolFlags_TypeParameter = 262144"

definition SymbolFlags_Transient :: "32 word" where
  "SymbolFlags_Transient = 33554432"

subsection \<open>Outcomes\<close>

text \<open>
  A call returns a value, throws, or (in the model only) runs out of the fuel that
  bounds the depth of its recursion.
\<close>

datatype 'a result = OutOfFuel | Throws error | Returns 'a

definition andThen :: "'a result \<Rightarrow> ('a \<Rightarrow> 'b result) \<Rightarrow> 'b result" where
  "andThen m f = (case m of OutOfFuel \<Rightarrow> OutOfFuel | Throws e \<Rightarrow> Throws e | Returns x \<Rightarrow> f x)"

text \<open>A \<open>for ... of\<close> loop over an array that the body does not change.\<close>

primrec forEach :: "'a list \<Rightarrow> ('a \<Rightarrow> 's \<Rightarrow> 's result) \<Rightarrow> 's \<Rightarrow> 's result" where
  "forEach [] body s = Returns s"
| "forEach (x # xs) body s = andThen (body x s) (forEach xs body)"

subsection \<open>The objects of the graph\<close>

type_synonym astSymbolRef = nat
type_synonym astDeclarationRef = nat

text \<open>
  Modelled from the spec: \<open>AstSymbol\<close> and \<open>AstDeclaration\<close> (their source files are
  not among the sources). The fields are those of the data model of the specification,
  under the names the table uses; \<open>analyzedFlag\<close> is the private flag that
  \<open>_notifyAnalyzed\<close> sets. An object is referred to by its index in the table's store.
\<close>

record AstSymbol =
  localName :: string
  followedSymbol :: tsSymbol
  astImport :: "AstImport option"
  nominal :: bool
  parentAstSymbol :: "astSymbolRef option"
  rootAstSymbol :: astSymbolRef
  astDeclarations :: "astDeclarationRef list"
  analyzedFlag :: bool

record AstDeclaration =
  declarationNode :: tsNode
  astSymbol :: astSymbolRef
  parent :: "astDeclarationRef option"
  children :: "astDeclarationRef list"
  referencedAstSymbols :: "astSymbolRef list"

text \<open>
  The table: the two stores of objects and the three maps of lines 37-50.
\<close>

record AstSymbolTable =
  astSymbolObjects :: "AstSymbol list"
  astDeclarationObjects :: "AstDeclaration list"
  astSymbolsBySymbol :: "tsSymbol \<rightharpoonup> astSymbolRef"
  astDeclarationsByDeclaration :: "tsNode \<rightharpoonup> astDeclarationRef"
  astSymbolsByImportKey :: "string \<times> string \<rightharpoonup> astSymbolRef"

definition emptyTable :: AstSymbolTable where
  "emptyTable = \<lparr> astSymbolObjects = [], astDeclarationObjects = [],
     astSymbolsBySymbol = Map.empty, astDeclarationsByDeclaration = Map.empty,
     astSymbolsByImportKey = Map.empty \<rparr>"

definition getAstSymbol :: "AstSymbolTable \<Rightarrow> astSymbolRef \<Rightarrow> AstSymbol option" where
  "getAstSymbol this r =
     (if r < length (astSymbolObjects this) then Some (astSymbolObjects this ! r) else None)"

definition getAstDeclaration :: "AstSymbolTable \<Rightarrow> astDeclarationRef \<Rightarrow> AstDeclaration option" where
  "getAstDeclaration this d =
     (if d < length (astDeclarationObjects this) then Some (astDeclarationObjects this ! d) else None)"

text \<open>
  Modelled from the spec: the getters \<open>imported\<close> and \<open>analyzed\<close> of an
  \<open>AstSymbol\<close>. The specification has \<open>analyze\<close> "mark \<open>root.analyzed = true\<close>" and
  be a "no-op if analyzed"; the table calls \<open>_notifyAnalyzed\<close> for the root only and
  documents that this "ensures that \<open>AstSymbol.analyzed\<close> is true for the provided
  symbol", and it reads \<open>imported\<close> to "walk up to the root of the tree, looking for any
  imports along the way". So both getters read the root of the symbol: a symbol is
  analyzed when its root is marked, and imported when its root has an import. A
  reference that points to no object has no root but itself and is neither imported nor
  analyzed.
\<close>

definition rootOf :: "AstSymbolTable \<Rightarrow> astSymbolRef \<Rightarrow> astSymbolRef" where
  "rootOf this r = (case getAstSymbol this r of Some x \<Rightarrow> rootAstSymbol x | None \<Rightarrow> r)"

definition imported :: "AstSymbolTable \<Rightarrow> astSymbolRef \<Rightarrow> bool" where
  "imported this r =
     (case getAstSymbol this (rootOf this r) of Some x \<Rightarrow> astImport x \<noteq> None | None \<Rightarrow> False)"

definition analyzed :: "AstSymbolTable \<Rightarrow> astSymbolRef \<Rightarrow> bool" where
  "analyzed this r =
     (case getAstSymbol this (rootOf this r) of Some x \<Rightarrow> analyzedFlag x | None \<Rightarrow> False)"

definition localNameOf :: "AstSymbolTable \<Rightarrow> astSymbolRef \<Rightarrow> string" where
  "localNameOf this r = (case getAstSymbol this r of Some x \<Rightarrow> localName x | None \<Rightarrow> [])"

definition ownerOf :: "AstSymbolTable \<Rightarrow> astDeclarationRef \<Rightarrow> astSymbolRef" where
  "ownerOf this d = (case getAstDeclaration this d of Some x \<Rightarrow> astSymbol x | None \<Rightarrow> 0)"

text \<open>
  Assignments to the fields of a stored object (none when the reference points
  nowhere).
\<close>

definition updateAstSymbol ::
  "astSymbolRef \<Rightarrow> (AstSymbol \<Rightarrow> AstSymbol) \<Rightarrow> AstSymbolTable \<Rightarrow> AstSymbolTable" where
  "updateAstSymbol r f this =
     this\<lparr>astSymbolObjects := (astSymbolObjects this)[r := f (astSymbolObjects this ! r)]\<rparr>"

definition updateAstDeclaration ::
  "astDeclarationRef \<Rightarrow> (AstDeclaration \<Rightarrow> AstDeclaration) \<Rightarrow> AstSymbolTable \<Rightarrow> AstSymbolTable" where
  "updateAstDeclaration d f this =
     this\<lparr>astDeclarationObjects := (astDeclarationObjects this)[d := f (astDeclarationObjects this ! d)]\<rparr>"

text \<open>
  Modelled from the spec: \<open>AstSymbol._notifyAnalyzed\<close> sets the flag of the symbol,
  and \<open>AstSymbol._notifyDeclarationAttach\<close> appends a declaration to the ordered
  declarations of the symbol.
\<close>

definition notifyAnalyzed :: "astSymbolRef \<Rightarrow> AstSymbolTable \<Rightarrow> AstSymbolTable" where
  "notifyAnalyzed r this = updateAstSymbol r (\<lambda>x. x\<lparr>analyzedFlag := True\<rparr>) this"

definition notifyDeclarationAttach ::
  "astSymbolRef \<Rightarrow> astDeclarationRef \<Rightarrow> AstSymbolTable \<Rightarrow> AstSymbolTable" where
  "notifyDeclarationAttach r d this =
     updateAstSymbol r (\<lambda>x. x\<lparr>astDeclarations := astDeclarations x @ [d]\<rparr>) this"

text \<open>
  Modelled from the spec: \<open>AstDeclaration._notifyChildAttach\<close> and
  \<open>AstDeclaration._notifyReferencedAstSymbol\<close>. The children and the references of a
  declaration "grow only while \<open>owner.analyzed == false\<close>" and are "frozen
  afterward", so extending them for an analyzed owner is an error; the references are
  "deduplicated, insertion order".
\<close>

definition notifyChildAttach ::
  "astDeclarationRef \<Rightarrow> astDeclarationRef \<Rightarrow> AstSymbolTable \<Rightarrow> AstSymbolTable result" where
  "notifyChildAttach p child this =
     (if analyzed this (ownerOf this p) then Throws FrozenAfterAnalysis
      else Returns (updateAstDeclaration p (\<lambda>x. x\<lparr>children := children x @ [child]\<rparr>) this))"

definition notifyReferencedAstSymbol ::
  "astDeclarationRef \<Rightarrow> astSymbolRef \<Rightarrow> AstSymbolTable \<Rightarrow> AstSymbolTable result" where
  "notifyReferencedAstSymbol d r this =
     (if analyzed this (ownerOf this d) then Throws FrozenAfterAnalysis
      else Returns (updateAstDeclaration d
             (\<lambda>x. if r \<in> set (referencedAstSymbols x) then x
                  else x\<lparr>referencedAstSymbols := referencedAstSymbols x @ [r]\<rparr>) this))"

text \<open>
  Modelled from the spec: the constructor of \<open>AstSymbol\<close>, called on lines 351-358.
  The new object is stored at the next free index; its root is the root handed over
  or, when none is ("\<open>root = parent.root\<close> (or self if no parent)"), the object itself;
  it has no declarations yet and is not analyzed.
\<close>

definition new_AstSymbol ::
  "string \<Rightarrow> tsSymbol \<Rightarrow> AstImport option \<Rightarrow> astSymbolRef option \<Rightarrow> astSymbolRef option \<Rightarrow> bool
     \<Rightarrow> AstSymbolTable \<Rightarrow> astSymbolRef \<times> AstSymbolTable" where
  "new_AstSymbol nm followed imp parentSym rootSym nom this =
     (let r = length (astSymbolObjects this) in
      (r, this\<lparr>astSymbolObjects := astSymbolObjects this @
            [\<lparr> localName = nm, followedSymbol = followed, astImport = imp, nominal = nom,
               parentAstSymbol = parentSym,
               rootAstSymbol = (case rootSym of Some x \<Rightarrow> x | None \<Rightarrow> r),
               astDeclarations = [], analyzedFlag = False \<rparr>]\<rparr>))"

text \<open>
  Modelled from the spec: the constructor of \<open>AstDeclaration\<close>, called on lines
  385-386. The new object is stored, attached to the declarations of its symbol and,
  when it has a parent, to the children of the parent ("wiring each to its own nearest
  already-registered parent").
\<close>

definition new_AstDeclaration ::
  "tsNode \<Rightarrow> astSymbolRef \<Rightarrow> astDeclarationRef option \<Rightarrow> AstSymbolTable
     \<Rightarrow> (astDeclarationRef \<times> AstSymbolTable) result" where
  "new_AstDeclaration node symRef parentDecl this =
     (let d = length (astDeclarationObjects this);
          stored = this\<lparr>astDeclarationObjects := astDeclarationObjects this @
            [\<lparr> declarationNode = node, astSymbol = symRef, parent = parentDecl, children = [],
               referencedAstSymbols = [] \<rparr>]\<rparr>;
          attached = notifyDeclarationAttach symRef d stored
      in case parentDecl of
           None \<Rightarrow> Returns (d, attached)
         | Some p \<Rightarrow> andThen (notifyChildAttach p d attached) (\<lambda>t. Returns (d, t)))"

subsection \<open>Resolving symbols\<close>

text \<open>
  \<open>_tryFindFirstAstDeclarationParent\<close>, lines 411-420: the loop walks up the chain of
  parents, \<open>currentNode\<close> being the head of the rest of the chain.
\<close>

primrec tryFindFirstAstDeclarationParent_loop :: "TsProgram \<Rightarrow> tsNode list \<Rightarrow> tsNode option" where
  "tryFindFirstAstDeclarationParent_loop P [] = None"
| "tryFindFirstAstDeclarationParent_loop P (currentNode # rest) =
     (if isAstDeclaration P (nodeKind P currentNode) then Some currentNode
      else tryFindFirstAstDeclarationParent_loop P rest)"

definition tryFindFirstAstDeclarationParent :: "TsProgram \<Rightarrow> tsNode \<Rightarrow> tsNode option" where
  "tryFindFirstAstDeclarationParent P node =
     tryFindFirstAstDeclarationParent_loop P (nodeAncestors P node)"

text \<open>
  The body of the loop of lines 369-389, for one declaration of the followed symbol.
\<close>

definition createAstDeclaration ::
  "TsProgram \<Rightarrow> astSymbolRef \<Rightarrow> astSymbolRef option \<Rightarrow> tsNode \<Rightarrow> AstSymbolTable
     \<Rightarrow> AstSymbolTable result" where
  "createAstDeclaration P symRef parentSym node this =
     andThen
       (case parentSym of
          None \<Rightarrow> Returns None
        | Some _ \<Rightarrow>
            (case tryFindFirstAstDeclarationParent P node of
               None \<Rightarrow> Throws MissingParentDeclaration
             | Some parentDeclaration \<Rightarrow>
                 (case astDeclarationsByDeclaration this parentDeclaration of
                    None \<Rightarrow> Throws MissingParentAstDeclaration
                  | Some parentAstDeclaration \<Rightarrow> Returns (Some parentAstDeclaration))))
       (\<lambda>parentAstDeclaration.
          andThen (new_AstDeclaration node symRef parentAstDeclaration this)
            (\<lambda>(d, t). Returns (t\<lparr>astDeclarationsByDeclaration :=
                                   (astDeclarationsByDeclaration t)(node \<mapsto> d)\<rparr>)))"

text \<open>
  Lines 286-390: no lookup found the followed symbol, so a new entry is created. The
  declarations of the followed symbol are \<open>firstDeclaration # otherDeclarations\<close> (the
  check of line 269 has passed). The block is modelled in three parts.

  Lines 288-312: whether the new symbol is nominal.
\<close>

definition isNominalSymbol :: "TsProgram \<Rightarrow> tsNode \<Rightarrow> tsNode list \<Rightarrow> bool" where
  "isNominalSymbol P firstDeclaration otherDeclarations =
     (let nominal1 =
            (length (firstDeclaration # otherDeclarations) = 1
               \<and> nodeKind P firstDeclaration = SourceFile);
          followedSymbolSourceFile = nodeSourceFile P firstDeclaration
      in if isSourceFileFromExternalLibrary P followedSymbolSourceFile
         then (if \<not> isAedocSupportedFor P (sourceFileName P followedSymbolSourceFile)
               then True else nominal1)
         else nominal1)"

text \<open>
  Lines 314-349: the parent of a symbol that is not nominal. \<open>fetchParent\<close> is the
  recursive call of \<open>_fetchAstSymbol\<close> for the symbol of the parent declaration.
\<close>

definition fetchParentAstSymbol ::
  "(AstSymbolTable \<Rightarrow> tsSymbol \<Rightarrow> bool \<Rightarrow> (astSymbolRef option \<times> AstSymbolTable) result)
     \<Rightarrow> TsProgram \<Rightarrow> AstSymbolTable \<Rightarrow> tsSymbol \<Rightarrow> bool \<Rightarrow> tsNode \<Rightarrow> tsNode list \<Rightarrow> bool
     \<Rightarrow> (astSymbolRef option \<times> AstSymbolTable) result" where
  "fetchParentAstSymbol fetchParent P this followed isNominal firstDeclaration otherDeclarations addIfMissing =
     (if \<not> isNominal then
        (case find (\<lambda>d. \<not> isAstDeclaration P (nodeKind P d)) (firstDeclaration # otherDeclarations) of
           Some d \<Rightarrow> Throws (UnimplementedLanguageFeature (symbolName P followed) (nodeKind P d))
         | None \<Rightarrow>
             (case tryFindFirstAstDeclarationParent P firstDeclaration of
                None \<Rightarrow> Returns (None, this)
              | Some arbitaryParentDeclaration \<Rightarrow>
                  (case getSymbolForDeclaration P arbitaryParentDeclaration of
                     None \<Rightarrow> Throws (CollaboratorError ''getSymbolForDeclaration'')
                   | Some parentSymbol \<Rightarrow>
                       andThen (fetchParent this parentSymbol addIfMissing)
                         (\<lambda>(parentAstSymbol, t).
                            case parentAstSymbol of
                              None \<Rightarrow> Throws (ParentAstSymbolNotConstructed (symbolName P followed))
                            | Some p \<Rightarrow> Returns (Some p, t)))))
      else Returns (None, this))"

text \<open>
  Lines 351-390: the new \<open>AstSymbol\<close> is created and registered, and one
  \<open>AstDeclaration\<close> is created for each declaration.
\<close>

definition registerAstSymbol ::
  "TsProgram \<Rightarrow> IFollowAliasesResult \<Rightarrow> bool \<Rightarrow> tsNode list \<Rightarrow> astSymbolRef option
     \<Rightarrow> AstSymbolTable \<Rightarrow> (astSymbolRef \<times> AstSymbolTable) result" where
  "registerAstSymbol P followAliasesResult isNominal declarations parentSym this =
     (let followed = far_followedSymbol followAliasesResult;
          (symRef, t2) = new_AstSymbol (far_localName followAliasesResult) followed
             (far_astImport followAliasesResult) parentSym
             (case parentSym of Some p \<Rightarrow> Some (rootOf this p) | None \<Rightarrow> None) isNominal this;
          t3 = t2\<lparr>astSymbolsBySymbol := (astSymbolsBySymbol t2)(followed \<mapsto> symRef)\<rparr>;
          t4 = (case far_astImport followAliasesResult of
                  Some imp \<Rightarrow> t3\<lparr>astSymbolsByImportKey := (astSymbolsByImportKey t3)(importKey imp \<mapsto> symRef)\<rparr>
                | None \<Rightarrow> t3)
      in andThen (forEach declarations (createAstDeclaration P symRef parentSym) t4)
           (\<lambda>t5. Returns (symRef, t5)))"

definition constructAstSymbol ::
  "(AstSymbolTable \<Rightarrow> tsSymbol \<Rightarrow> bool \<Rightarrow> (astSymbolRef option \<times> AstSymbolTable) result)
     \<Rightarrow> TsProgram \<Rightarrow> AstSymbolTable \<Rightarrow> IFollowAliasesResult \<Rightarrow> tsNode \<Rightarrow> tsNode list \<Rightarrow> bool
     \<Rightarrow> (astSymbolRef \<times> AstSymbolTable) result" where
  "constructAstSymbol fetchParent P this followAliasesResult firstDeclaration otherDeclarations addIfMissing =
     (let isNominal = isNominalSymbol P firstDeclaration otherDeclarations in
      andThen
        (fetchParentAstSymbol fetchParent P this (far_followedSymbol followAliasesResult) isNominal
           firstDeclaration otherDeclarations addIfMissing)
        (\<lambda>(parentSym, t1).
           registerAstSymbol P followAliasesResult isNominal (firstDeclaration # otherDeclarations)
             parentSym t1))"

text \<open>
  \<open>_fetchAstSymbol\<close>, lines 252-406. The first argument bounds the depth of the
  recursion through the chain of parent symbols.
\<close>

primrec fetchAstSymbol ::
  "nat \<Rightarrow> TsProgram \<Rightarrow> AstSymbolTable \<Rightarrow> tsSymbol \<Rightarrow> bool
     \<Rightarrow> (astSymbolRef option \<times> AstSymbolTable) result" where
  "fetchAstSymbol 0 P this symbol addIfMissing = OutOfFuel"
| "fetchAstSymbol (Suc fuel) P this symbol addIfMissing =
     (let followAliasesResult = followAliases P symbol;
          followed = far_followedSymbol followAliasesResult
      in
      if symbolFlags P followed AND
           (SymbolFlags_TypeParameter OR SymbolFlags_TypeLiteral OR SymbolFlags_Transient) \<noteq> 0
      then Returns (None, this)
      else if far_isAmbient followAliasesResult then Returns (None, this)
      else
        andThen
          (case astSymbolsBySymbol this followed of
             Some symRef \<Rightarrow> Returns (symRef, this)
           | None \<Rightarrow>
               (case symbolDeclarations P followed of
                  None \<Rightarrow> Throws FollowedSymbolWithNoDeclarations
                | Some [] \<Rightarrow> Throws FollowedSymbolWithNoDeclarations
                | Some (firstDeclaration # otherDeclarations) \<Rightarrow>
                    (case (case far_astImport followAliasesResult of
                             Some imp \<Rightarrow> astSymbolsByImportKey this (importKey imp)
                           | None \<Rightarrow> None) of
                       Some symRef \<Rightarrow>
                         Returns (symRef, this\<lparr>astSymbolsBySymbol :=
                                           (astSymbolsBySymbol this)(followed \<mapsto> symRef)\<rparr>)
                     | None \<Rightarrow>
                         constructAstSymbol (fetchAstSymbol fuel P) P this followAliasesResult
                           firstDeclaration otherDeclarations addIfMissing)))
          (\<lambda>(symRef, t).
             if far_astImport followAliasesResult \<noteq> None \<and> \<not> imported t symRef
             then Throws (ImportedAfterNonImported (localNameOf t symRef))
             else Returns (Some symRef, t)))"

text \<open>\<open>tryGetAstSymbol\<close>, lines 153-155.\<close>

definition tryGetAstSymbol ::
  "nat \<Rightarrow> TsProgram \<Rightarrow> AstSymbolTable \<Rightarrow> tsSymbol \<Rightarrow> (astSymbolRef option \<times> AstSymbolTable) result" where
  "tryGetAstSymbol fuel P this symbol = fetchAstSymbol fuel P this symbol False"

subsection \<open>Analysis\<close>

text \<open>\<open>_fetchAstSymbolForNode\<close>, lines 239-250.\<close>

definition fetchAstSymbolForNode ::
  "nat \<Rightarrow> TsProgram \<Rightarrow> tsNode \<Rightarrow> AstSymbolTable \<Rightarrow> (astSymbolRef option \<times> AstSymbolTable) result" where
  "fetchAstSymbolForNode fuel P node this =
     (if \<not> isAstDeclaration P (nodeKind P node) then Returns (None, this)
      else case getSymbolForDeclaration P node of
             None \<Rightarrow> Throws SymbolNotFoundForNode
           | Some symbol \<Rightarrow> fetchAstSymbol fuel P this symbol True)"

text \<open>\<open>_fetchAstDeclaration\<close>, lines 224-237.\<close>

definition fetchAstDeclaration ::
  "nat \<Rightarrow> TsProgram \<Rightarrow> tsNode \<Rightarrow> AstSymbolTable
     \<Rightarrow> (astDeclarationRef option \<times> AstSymbolTable) result" where
  "fetchAstDeclaration fuel P node this =
     andThen (fetchAstSymbolForNode fuel P node this)
       (\<lambda>(symRef, t).
          case symRef of
            None \<Rightarrow> Returns (None, t)
          | Some _ \<Rightarrow>
              (case astDeclarationsByDeclaration t node of
                 None \<Rightarrow> Throws ConstructedAstDeclarationNotFound
               | Some astDeclaration \<Rightarrow> Returns (Some astDeclaration, t)))"

text \<open>
  \<open>_analyzeChildTree\<close>, lines 182-221. The first argument bounds the depth of the
  recursion through the children of the node.
\<close>

primrec analyzeChildTree ::
  "nat \<Rightarrow> TsProgram \<Rightarrow> tsNode \<Rightarrow> astDeclarationRef \<Rightarrow> AstSymbolTable \<Rightarrow> AstSymbolTable result" where
  "analyzeChildTree 0 P node governingAstDeclaration this = OutOfFuel"
| "analyzeChildTree (Suc fuel) P node governingAstDeclaration this =
     (if nodeKind P node = JSDocComment then Returns this
      else
        andThen
          (if nodeKind P node = TypeReference \<or> nodeKind P node = ExpressionWithTypeArguments
               \<or> nodeKind P node = ComputedPropertyName
           then
             (case findFirstChildNode P node Identifier of
                None \<Rightarrow> Returns this
              | Some symbolNode \<Rightarrow>
                  (case getSymbolAtLocation P symbolNode of
                     None \<Rightarrow> Throws (SymbolNotFoundForIdentifier (nodeText P symbolNode))
                   | Some symbol \<Rightarrow>
                       andThen (fetchAstSymbol fuel P this symbol True)
                         (\<lambda>(referencedAstSymbol, t).
                            case referencedAstSymbol of
                              None \<Rightarrow> Returns t
                            | Some r \<Rightarrow> notifyReferencedAstSymbol governingAstDeclaration r t)))
           else Returns this)
          (\<lambda>t1.
             andThen (fetchAstDeclaration fuel P node t1)
               (\<lambda>(newGoverningAstDeclaration, t2).
                  forEach (nodeChildren P node)
                    (\<lambda>childNode.
                       analyzeChildTree fuel P childNode
                         (case newGoverningAstDeclaration of
                            Some d \<Rightarrow> d
                          | None \<Rightarrow> governingAstDeclaration))
                    t2)))"

text \<open>
  Modelled from the spec: \<open>AstDeclaration.forEachDeclarationRecursive\<close> and
  \<open>AstSymbol.forEachDeclarationRecursive\<close>, which reach every declaration "anywhere
  in the subtree": the action is applied to a declaration and then to its children, for
  every declaration of the symbol, in order. The first argument bounds the depth of the
  recursion through the children.
\<close>

primrec forEachDeclarationRecursive_from ::
  "nat \<Rightarrow> (astDeclarationRef \<Rightarrow> AstSymbolTable \<Rightarrow> AstSymbolTable result)
     \<Rightarrow> astDeclarationRef \<Rightarrow> AstSymbolTable \<Rightarrow> AstSymbolTable result" where
  "forEachDeclarationRecursive_from 0 action d this = OutOfFuel"
| "forEachDeclarationRecursive_from (Suc fuel) action d this =
     andThen (action d this)
       (\<lambda>t. case getAstDeclaration t d of
               None \<Rightarrow> Throws InvalidReference
             | Some x \<Rightarrow> forEach (children x) (forEachDeclarationRecursive_from fuel action) t)"

definition forEachDeclarationRecursive ::
  "nat \<Rightarrow> astSymbolRef \<Rightarrow> (astDeclarationRef \<Rightarrow> AstSymbolTable \<Rightarrow> AstSymbolTable result)
     \<Rightarrow> AstSymbolTable \<Rightarrow> AstSymbolTable result" where
  "forEachDeclarationRecursive fuel symRef action this =
     (case getAstSymbol this symRef of
        None \<Rightarrow> Throws InvalidReference
      | Some x \<Rightarrow> forEach (astDeclarations x) (forEachDeclarationRecursive_from fuel action) this)"

text \<open>
  The callback of lines 138-145, applied to one declaration: every referenced symbol
  that is not imported is analyzed. \<open>analyzeSymbol\<close> is the recursive call of
  \<open>analyze\<close>.
\<close>

definition analyzeReferenced ::
  "(astSymbolRef \<Rightarrow> AstSymbolTable \<Rightarrow> AstSymbolTable result)
     \<Rightarrow> astDeclarationRef \<Rightarrow> AstSymbolTable \<Rightarrow> AstSymbolTable result" where
  "analyzeReferenced analyzeSymbol d this =
     (case getAstDeclaration this d of
        None \<Rightarrow> Throws InvalidReference
      | Some y \<Rightarrow>
          forEach (referencedAstSymbols y)
            (\<lambda>referencedAstSymbol t.
               if \<not> imported t referencedAstSymbol then analyzeSymbol referencedAstSymbol t
               else Returns t)
            this)"

text \<open>
  The loop of lines 128-130 for one declaration of the root symbol.
\<close>

definition analyzeDeclarationTree ::
  "nat \<Rightarrow> TsProgram \<Rightarrow> astDeclarationRef \<Rightarrow> AstSymbolTable \<Rightarrow> AstSymbolTable result" where
  "analyzeDeclarationTree fuel P d this =
     (case getAstDeclaration this d of
        None \<Rightarrow> Throws InvalidReference
      | Some y \<Rightarrow> analyzeChildTree fuel P (declarationNode y) d this)"

text \<open>
  \<open>analyze\<close>, lines 113-147. The first argument bounds the depth of the recursion
  through referenced symbols.
\<close>

primrec analyze ::
  "nat \<Rightarrow> TsProgram \<Rightarrow> astSymbolRef \<Rightarrow> AstSymbolTable \<Rightarrow> AstSymbolTable result" where
  "analyze 0 P symRef this = OutOfFuel"
| "analyze (Suc fuel) P symRef this =
     (case getAstSymbol this symRef of
        None \<Rightarrow> Throws InvalidReference
      | Some x \<Rightarrow>
          if analyzed this symRef then Returns this
          else if nominal x then Returns (notifyAnalyzed symRef this)
          else
            (case getAstSymbol this (rootAstSymbol x) of
               None \<Rightarrow> Throws InvalidReference
             | Some rootX \<Rightarrow>
                 andThen (forEach (astDeclarations rootX) (analyzeDeclarationTree fuel P) this)
                   (\<lambda>t1.
                      let t2 = notifyAnalyzed (rootAstSymbol x) t1 in
                      if astImport x = None then
                        forEachDeclarationRecursive fuel (rootAstSymbol x)
                          (analyzeReferenced (analyze fuel P)) t2
                      else Returns t2)))"

text \<open>\<open>getChildAstDeclarationByNode\<close>, lines 163-177.\<close>

definition getChildAstDeclarationByNode ::
  "AstSymbolTable \<Rightarrow> tsNode \<Rightarrow> astDeclarationRef \<Rightarrow> astDeclarationRef result" where
  "getChildAstDeclarationByNode this node parentAstDeclaration =
     (if \<not> analyzed this (ownerOf this parentAstDeclaration) then Throws NotAnalyzed
      else case astDeclarationsByDeclaration this node of
             None \<Rightarrow> Throws ChildDeclarationNotFound
           | Some childAstDeclaration \<Rightarrow>
               (case getAstDeclaration this childAstDeclaration of
                  None \<Rightarrow> Throws InvalidReference
                | Some y \<Rightarrow>
                    if parent y \<noteq> Some parentAstDeclaration then Throws ChildNotAttached
                    else Returns childAstDeclaration))"

subsection \<open>A small program\<close>

text \<open>
  The declaration file \<open>index.d.ts\<close> (node 100) of a project declares a class
  \<open>Widget\<close> (symbol 1, node 101) with a method (symbol 2, node 102) whose signature
  refers to the interface \<open>Helper\<close> (symbol 3, node 107), which is not exported, and
  to the class \<open>Ext\<close> imported from the package \<open>pkg\<close> (the local symbol 10,
  followed to symbol 20, node 200, in a file of an external library without documentation
  support). A second copy of the package declares the same class once more (the local
  symbol 11, followed to symbol 21, node 210). Symbol 12 reaches symbol 20 without
  passing an import statement, symbol 13 reaches \<open>Widget\<close> through an import
  statement, symbol 14 reaches symbol 20 through an import from the package \<open>facade\<close>,
  which exports the class of \<open>pkg\<close> again, symbol 15 is a second import of the class
  from \<open>pkg\<close>, under the local name \<open>Ext2\<close>, symbol 4 is a type parameter, symbol 5
  is ambient, symbol 30 is the module of the file itself, and symbol 31 is declared by a
  construct (node 120) that is not supported.
\<close>

definition lookupOr :: "'b \<Rightarrow> ('a \<times> 'b) list \<Rightarrow> 'a \<Rightarrow> 'b" where
  "lookupOr d xs k = (case map_of xs k of Some v \<Rightarrow> v | None \<Rightarrow> d)"

definition pkgExt :: AstImport where
  "pkgExt = \<lparr> packageName = ''pkg'', exportedName = ''Ext'' \<rparr>"

definition exampleProgram :: TsProgram where
  "exampleProgram = \<lparr>
     followAliases = (\<lambda>s. lookupOr
       \<lparr> far_followedSymbol = s, far_localName = ''local'', far_astImport = None, far_isAmbient = False \<rparr>
       [(1, \<lparr> far_followedSymbol = 1, far_localName = ''Widget'', far_astImport = None, far_isAmbient = False \<rparr>),
        (2, \<lparr> far_followedSymbol = 2, far_localName = ''method'', far_astImport = None, far_isAmbient = False \<rparr>),
        (3, \<lparr> far_followedSymbol = 3, far_localName = ''Helper'', far_astImport = None, far_isAmbient = False \<rparr>),
        (5, \<lparr> far_followedSymbol = 5, far_localName = ''Ambient'', far_astImport = None, far_isAmbient = True \<rparr>),
        (10, \<lparr> far_followedSymbol = 20, far_localName = ''Ext'', far_astImport = Some pkgExt, far_isAmbient = False \<rparr>),
        (11, \<lparr> far_followedSymbol = 21, far_localName = ''Ext'', far_astImport = Some pkgExt, far_isAmbient = False \<rparr>),
        (12, \<lparr> far_followedSymbol = 20, far_localName = ''Ext'', far_astImport = None, far_isAmbient = False \<rparr>),
        (13, \<lparr> far_followedSymbol = 1, far_localName = ''Widget'',
               far_astImport = Some \<lparr> packageName = ''pkg2'', exportedName = ''Widget'' \<rparr>,
               far_isAmbient = False \<rparr>),
        (14, \<lparr> far_followedSymbol = 20, far_localName = ''Ext'',
               far_astImport = Some \<lparr> packageName = ''facade'', exportedName = ''Ext'' \<rparr>,
               far_isAmbient = False \<rparr>),
        (15, \<lparr> far_followedSymbol = 20, far_localName = ''Ext2'', far_astImport = Some pkgExt, far_isAmbient = False \<rparr>)] s),
     symbolFlags = lookupOr 0 [(4, SymbolFlags_TypeParameter)],
     symbolName = lookupOr ''anonymous''
       [(1, ''Widget''), (2, ''method''), (3, ''Helper''), (20, ''Ext''), (21, ''Ext''), (31, ''odd'')],
     symbolDeclarations = lookupOr None
       [(1, Some [101]), (2, Some [102]), (3, Some [107]), (20, Some [200]), (21, Some [210]),
        (30, Some [100]), (31, Some [120])],
     nodeKind = lookupOr (OtherKind 0)
       [(100, SourceFile), (101, ClassDeclaration), (102, MethodDeclaration), (103, TypeReference),
        (104, Identifier), (105, TypeReference), (106, Identifier), (107, InterfaceDeclaration),
        (200, ClassDeclaration), (201, SourceFile), (210, ClassDeclaration), (211, SourceFile)],
     nodeAncestors = lookupOr []
       [(101, [100]), (102, [101, 100]), (103, [102, 101, 100]), (104, [103, 102, 101, 100]),
        (105, [102, 101, 100]), (106, [105, 102, 101, 100]), (107, [100]), (120, [100]),
        (200, [201]), (210, [211])],
     nodeChildren = lookupOr []
       [(100, [101, 107]), (101, [102]), (102, [103, 105]), (103, [104]), (105, [106])],
     nodeText = lookupOr [] [(104, ''Helper''), (106, ''Ext'')],
     nodeSourceFile = lookupOr 100 [(200, 201), (201, 201), (210, 211), (211, 211)],
     sourceFileName = lookupOr ''/proj/lib/index.d.ts''
       [(201, ''/proj/node_modules/pkg/index.d.ts''),
        (211, ''/proj/node_modules/other/node_modules/pkg/index.d.ts'')],
     isSourceFileFromExternalLibrary = (\<lambda>f. f = 201 \<or> f = 211),
     isAedocSupportedFor = (\<lambda>f. False),
     isAstDeclaration = (\<lambda>k. k \<in> {ClassDeclaration, InterfaceDeclaration, FunctionDeclaration,
        VariableDeclaration, EnumDeclaration, ModuleDeclaration, MethodDeclaration, PropertySignature}),
     getSymbolForDeclaration = lookupOr None
       [(100, Some 30), (101, Some 1), (102, Some 2), (107, Some 3), (200, Some 20), (210, Some 21)],
     getSymbolAtLocation = lookupOr None [(104, Some 3), (106, Some 10)],
     findFirstChildNode = (\<lambda>n k. if k = Identifier then lookupOr None [(103, Some 104), (105, Some 106)] n else None) \<rparr>"

subsection \<open>Tables of the small program\<close>

text \<open>The table after \<open>Widget\<close> (symbol 1) has been resolved in the empty table.\<close>

definition tableWithWidget :: AstSymbolTable where
  "tableWithWidget =
     \<lparr> astSymbolObjects =
         [\<lparr> localName = ''Widget'', followedSymbol = 1, astImport = None, nominal = False,
            parentAstSymbol = None, rootAstSymbol = 0, astDeclarations = [0],
            analyzedFlag = False \<rparr>],
       astDeclarationObjects =
         [\<lparr> declarationNode = 101, astSymbol = 0, parent = None, children = [],
            referencedAstSymbols = [] \<rparr>],
       astSymbolsBySymbol = [1 \<mapsto> 0],
       astDeclarationsByDeclaration = [101 \<mapsto> 0],
       astSymbolsByImportKey = Map.empty \<rparr>"

text \<open>The table after the imported class (symbol 10) has been resolved in the empty table.\<close>

definition tableWithExt :: AstSymbolTable where
  "tableWithExt =
     \<lparr> astSymbolObjects =
         [\<lparr> localName = ''Ext'', followedSymbol = 20, astImport = Some pkgExt, nominal = True,
            parentAstSymbol = None, rootAstSymbol = 0, astDeclarations = [0],
            analyzedFlag = False \<rparr>],
       astDeclarationObjects =
         [\<lparr> declarationNode = 200, astSymbol = 0, parent = None, children = [],
            referencedAstSymbols = [] \<rparr>],
       astSymbolsBySymbol = [20 \<mapsto> 0],
       astDeclarationsByDeclaration = [200 \<mapsto> 0],
       astSymbolsByImportKey = [importKey pkgExt \<mapsto> 0] \<rparr>"

text \<open>
  The tables of the run that reaches the class of \<open>pkg\<close> through \<open>facade\<close> first
  (symbol 14) and then resolves its second copy (symbol 11).
\<close>

definition tableWithFacade :: AstSymbolTable where
  "tableWithFacade =
     \<lparr> astSymbolObjects =
         [\<lparr> localName = ''Ext'', followedSymbol = 20,
            astImport = Some \<lparr> packageName = ''facade'', exportedName = ''Ext'' \<rparr>, nominal = True,
            parentAstSymbol = None, rootAstSymbol = 0, astDeclarations = [0],
            analyzedFlag = False \<rparr>],
       astDeclarationObjects =
         [\<lparr> declarationNode = 200, astSymbol = 0, parent = None, children = [],
            referencedAstSymbols = [] \<rparr>],
       astSymbolsBySymbol = [20 \<mapsto> 0],
       astDeclarationsByDeclaration = [200 \<mapsto> 0],
       astSymbolsByImportKey = [(''facade'', ''Ext'') \<mapsto> 0] \<rparr>"

definition tableWithTwoExt :: AstSymbolTable where
  "tableWithTwoExt =
     \<lparr> astSymbolObjects =
         [\<lparr> localName = ''Ext'', followedSymbol = 20,
            astImport = Some \<lparr> packageName = ''facade'', exportedName = ''Ext'' \<rparr>, nominal = True,
            parentAstSymbol = None, rootAstSymbol = 0, astDeclarations = [0],
            analyzedFlag = False \<rparr>,
          \<lparr> localName = ''Ext'', followedSymbol = 21, astImport = Some pkgExt, nominal = True,
            parentAstSymbol = None, rootAstSymbol = 1, astDeclarations = [1],
            analyzedFlag = False \<rparr>],
       astDeclarationObjects =
         [\<lparr> declarationNode = 200, astSymbol = 0, parent = None, children = [],
            referencedAstSymbols = [] \<rparr>,
          \<lparr> declarationNode = 210, astSymbol = 1, parent = None, children = [],
            referencedAstSymbols = [] \<rparr>],
       astSymbolsBySymbol = [20 \<mapsto> 0, 21 \<mapsto> 1],
       astDeclarationsByDeclaration = [200 \<mapsto> 0, 210 \<mapsto> 1],
       astSymbolsByImportKey = [(''facade'', ''Ext'') \<mapsto> 0, importKey pkgExt \<mapsto> 1] \<rparr>"

text \<open>The table after the imported class has been resolved in \<open>tableWithWidget\<close>.\<close>

definition tableWithWidgetAndExt :: AstSymbolTable where
  "tableWithWidgetAndExt =
     \<lparr> astSymbolObjects =
         [\<lparr> localName = ''Widget'', followedSymbol = 1, astImport = None, nominal = False,
            parentAstSymbol = None, rootAstSymbol = 0, astDeclarations = [0],
            analyzedFlag = False \<rparr>,
          \<lparr> localName = ''Ext'', followedSymbol = 20, astImport = Some pkgExt, nominal = True,
            parentAstSymbol = None, rootAstSymbol = 1, astDeclarations = [1],
            analyzedFlag = False \<rparr>],
       astDeclarationObjects =
         [\<lparr> declarationNode = 101, astSymbol = 0, parent = None, children = [],
            referencedAstSymbols = [] \<rparr>,
          \<lparr> declarationNode = 200, astSymbol = 1, parent = None, children = [],
            referencedAstSymbols = [] \<rparr>],
       astSymbolsBySymbol = [1 \<mapsto> 0, 20 \<mapsto> 1],
       astDeclarationsByDeclaration = [101 \<mapsto> 0, 200 \<mapsto> 1],
       astSymbolsByImportKey = [importKey pkgExt \<mapsto> 1] \<rparr>"

text \<open>
  The table after \<open>Widget\<close> has been resolved through an import (symbol 13) in
  \<open>tableWithExt\<close>.
\<close>

definition tableWithExtAndWidget :: AstSymbolTable where
  "tableWithExtAndWidget =
     \<lparr> astSymbolObjects =
         [\<lparr> localName = ''Ext'', followedSymbol = 20, astImport = Some pkgExt, nominal = True,
            parentAstSymbol = None, rootAstSymbol = 0, astDeclarations = [0],
            analyzedFlag = False \<rparr>,
          \<lparr> localName = ''Widget'', followedSymbol = 1,
            astImport = Some \<lparr> packageName = ''pkg2'', exportedName = ''Widget'' \<rparr>, nominal = False,
            parentAstSymbol = None, rootAstSymbol = 1, astDeclarations = [1],
            analyzedFlag = False \<rparr>],
       astDeclarationObjects =
         [\<lparr> declarationNode = 200, astSymbol = 0, parent = None, children = [],
            referencedAstSymbols = [] \<rparr>,
          \<lparr> declarationNode = 101, astSymbol = 1, parent = None, children = [],
            referencedAstSymbols = [] \<rparr>],
       astSymbolsBySymbol = [20 \<mapsto> 0, 1 \<mapsto> 1],
       astDeclarationsByDeclaration = [200 \<mapsto> 0, 101 \<mapsto> 1],
       astSymbolsByImportKey = [importKey pkgExt \<mapsto> 0, (''pkg2'', ''Widget'') \<mapsto> 1] \<rparr>"

text \<open>The table after \<open>Widget\<close> has been analyzed in \<open>tableWithWidget\<close>.\<close>

definition analyzedTable :: AstSymbolTable where
  "analyzedTable =
     \<lparr> astSymbolObjects =
         [\<lparr> localName = ''Widget'', followedSymbol = 1, astImport = None, nominal = False,
            parentAstSymbol = None, rootAstSymbol = 0, astDeclarations = [0],
            analyzedFlag = True \<rparr>,
          \<lparr> localName = ''method'', followedSymbol = 2, astImport = None, nominal = False,
            parentAstSymbol = Some 0, rootAstSymbol = 0, astDeclarations = [1],
            analyzedFlag = False \<rparr>,
          \<lparr> localName = ''Helper'', followedSymbol = 3, astImport = None, nominal = False,
            parentAstSymbol = None, rootAstSymbol = 2, astDeclarations = [2],
            analyzedFlag = True \<rparr>,
          \<lparr> localName = ''Ext'', followedSymbol = 20, astImport = Some pkgExt, nominal = True,
            parentAstSymbol = None, rootAstSymbol = 3, astDeclarations = [3],
            analyzedFlag = False \<rparr>],
       astDeclarationObjects =
         [\<lparr> declarationNode = 101, astSymbol = 0, parent = None, children = [1],
            referencedAstSymbols = [] \<rparr>,
          \<lparr> declarationNode = 102, astSymbol = 1, parent = Some 0, children = [],
            referencedAstSymbols = [2, 3] \<rparr>,
          \<lparr> declarationNode = 107, astSymbol = 2, parent = None, children = [],
            referencedAstSymbols = [] \<rparr>,
          \<lparr> declarationNode = 200, astSymbol = 3, parent = None, children = [],
            referencedAstSymbols = [] \<rparr>],
       astSymbolsBySymbol = [1 \<mapsto> 0, 2 \<mapsto> 1, 3 \<mapsto> 2, 20 \<mapsto> 3],
       astDeclarationsByDeclaration = [101 \<mapsto> 0, 102 \<mapsto> 1, 107 \<mapsto> 2, 200 \<mapsto> 3],
       astSymbolsByImportKey = [importKey pkgExt \<mapsto> 3] \<rparr>"

section \<open>Notions used in the properties\<close>

text \<open>A caller that resolves the same symbol \<open>n\<close> times in a row and collects the results.\<close>

primrec fetchRepeatedly ::
  "nat \<Rightarrow> nat \<Rightarrow> TsProgram \<Rightarrow> AstSymbolTable \<Rightarrow> tsSymbol \<Rightarrow> bool
     \<Rightarrow> (astSymbolRef option list \<times> AstSymbolTable) result" where
  "fetchRepeatedly 0 fuel P this symbol addIfMissing = Returns ([], this)"
| "fetchRepeatedly (Suc n) fuel P this symbol addIfMissing =
     andThen (fetchAstSymbol fuel P this symbol addIfMissing)
       (\<lambda>(r, t). andThen (fetchRepeatedly n fuel P t symbol addIfMissing)
                    (\<lambda>(rs, t'). Returns (r # rs, t')))"

text \<open>
  The condition of the specification: the symbol has exactly one declaration, which is
  a whole source file, or its source file (that of its first declaration) belongs to an
  external library for which documentation is not supported.
\<close>

definition nominalBySpecification :: "TsProgram \<Rightarrow> tsNode list \<Rightarrow> bool" where
  "nominalBySpecification P declarations =
     ((length declarations = 1 \<and> nodeKind P (hd declarations) = SourceFile)
      \<or> (isSourceFileFromExternalLibrary P (nodeSourceFile P (hd declarations))
          \<and> \<not> isAedocSupportedFor P (sourceFileName P (nodeSourceFile P (hd declarations)))))"

text \<open>
  The fields of an \<open>AstSymbol\<close> that are assigned by the constructor only.
\<close>

definition core ::
  "AstSymbol \<Rightarrow> string \<times> tsSymbol \<times> AstImport option \<times> bool \<times> astSymbolRef option \<times> astSymbolRef" where
  "core x = (localName x, followedSymbol x, astImport x, nominal x, parentAstSymbol x, rootAstSymbol x)"

text \<open>
  \<open>grows this t\<close>: the table \<open>t\<close> holds every \<open>AstSymbol\<close> of \<open>this\<close> under the same
  reference, with the same constructor-assigned fields, and analyzed if it was.
\<close>

definition grows :: "AstSymbolTable \<Rightarrow> AstSymbolTable \<Rightarrow> bool" where
  "grows this t \<longleftrightarrow>
     length (astSymbolObjects this) \<le> length (astSymbolObjects t) \<and>
     (\<forall>r < length (astSymbolObjects this).
        core (astSymbolObjects t ! r) = core (astSymbolObjects this ! r) \<and>
        (analyzedFlag (astSymbolObjects this ! r) \<longrightarrow> analyzedFlag (astSymbolObjects t ! r)))"

text \<open>The table after the new symbol is stored and entered into the maps (lines 351-365).\<close>

definition registered ::
  "IFollowAliasesResult \<Rightarrow> bool \<Rightarrow> astSymbolRef option \<Rightarrow> AstSymbolTable \<Rightarrow> AstSymbolTable" where
  "registered far nom parentSym this =
     this\<lparr> astSymbolObjects := astSymbolObjects this @
           [\<lparr> localName = far_localName far, followedSymbol = far_followedSymbol far,
              astImport = far_astImport far, nominal = nom, parentAstSymbol = parentSym,
              rootAstSymbol = (case parentSym of Some p \<Rightarrow> rootOf this p
                                | None \<Rightarrow> length (astSymbolObjects this)),
              astDeclarations = [], analyzedFlag = False \<rparr>],
         astSymbolsBySymbol := (astSymbolsBySymbol this)
           (far_followedSymbol far \<mapsto> length (astSymbolObjects this)),
         astSymbolsByImportKey :=
           (case far_astImport far of
              Some imp \<Rightarrow> (astSymbolsByImportKey this)(importKey imp \<mapsto> length (astSymbolObjects this))
            | None \<Rightarrow> astSymbolsByImportKey this) \<rparr>"

text \<open>
  The calls that change a table: a resolution of a symbol by \<open>_fetchAstSymbol\<close>
  (which \<open>tryGetAstSymbol\<close>, \<open>fetchEntryPoint\<close> and the analysis call) and an
  analysis of a symbol by \<open>analyze\<close>. The number bounds the depth of the recursion of
  the call. \<open>perform\<close> makes one call and keeps the table it leaves; a sequence of calls is
  the loop \<open>forEach calls (perform P)\<close>, which returns when every call returns.
\<close>

datatype tableCall = Resolve nat tsSymbol bool | Analyze nat astSymbolRef

definition perform :: "TsProgram \<Rightarrow> tableCall \<Rightarrow> AstSymbolTable \<Rightarrow> AstSymbolTable result" where
  "perform P c this =
     (case c of
        Resolve fuel symbol addIfMissing \<Rightarrow>
          andThen (fetchAstSymbol fuel P this symbol addIfMissing) (\<lambda>(r, t). Returns t)
      | Analyze fuel symRef \<Rightarrow> analyze fuel P symRef this)"

text \<open>
  \<open>keeps this t\<close>: every entry of the identity map and of the import-key map of \<open>this\<close>
  is an entry of the map of \<open>t\<close>.
\<close>

definition keeps :: "AstSymbolTable \<Rightarrow> AstSymbolTable \<Rightarrow> bool" where
  "keeps this t \<longleftrightarrow>
     astSymbolsBySymbol this \<subseteq>\<^sub>m astSymbolsBySymbol t \<and>
     astSymbolsByImportKey this \<subseteq>\<^sub>m astSymbolsByImportKey t"

chapter \<open>Properties\<close>

section \<open>Canonical references\<close>

lemma numberToString_examples:
  "numberToString 0 = ''0''" "numberToString 1 = ''1''" "numberToString 12 = ''12''"
  by (simp_all add: numberToString.simps digitChar_def)

text \<open>
  C9: for every name, static flag and overload index, \<open>getCanonicalReference\<close> returns
  the string \<open>(name:static,overloadIndex)\<close> when the flag is set and
  \<open>(name:instance,overloadIndex)\<close> otherwise, the index rendered as its decimal
  numeral, and the getter \<open>canonicalReference\<close> of an item is this function applied
  to the item's own name, static flag and overload index.
\<close>

theorem getCanonicalReference_format:
  "getCanonicalReference nm st i =
     ''('' @ nm @ '':'' @ (if st then ''static'' else ''instance'') @ '','' @ numberToString i @ '')''
   \<and> canonicalReference m = getCanonicalReference (name m) (isStatic m) (overloadIndex m)"
  by (simp add: getCanonicalReference_def canonicalReference_def)

text \<open>The two overloads of the scenario of the specification.\<close>

lemma canonicalReference_overloads:
  "canonicalReference \<lparr> name = ''foo'', isStatic = False, overloadIndex = 0 \<rparr> = ''(foo:instance,0)''"
  "canonicalReference \<lparr> name = ''foo'', isStatic = False, overloadIndex = 1 \<rparr> = ''(foo:instance,1)''"
  "canonicalReference \<lparr> name = ''foo'', isStatic = True, overloadIndex = 12 \<rparr> = ''(foo:static,12)''"
  by (simp_all add: canonicalReference_def getCanonicalReference_def numberToString.simps digitChar_def)

section \<open>Excerpts\<close>

lemma filter_range_upt: "filter (\<lambda>i. a \<le> i \<and> i < b) [0..<n] = [a..<min b n]"
proof (induction n)
  case 0
  then show ?case by simp
next
  case (Suc n)
  show ?case
  proof (cases "n < b")
    case True
    then have "min b (Suc n) = Suc n" "min b n = n" by simp_all
    with Suc show ?thesis by (cases "a \<le> n") simp_all
  next
    case False
    then have "min b (Suc n) = b" "min b n = b" by simp_all
    with Suc False show ?thesis by simp
  qed
qed

lemma filter_int_range_upt:
  assumes "0 \<le> s" "0 \<le> e"
  shows "filter (\<lambda>i. s \<le> int i \<and> int i < e) [0..<n] = [nat s..<min (nat e) n]"
proof -
  have "(\<lambda>i. s \<le> int i \<and> int i < e) = (\<lambda>i. nat s \<le> i \<and> i < nat e)"
    using assms by (intro ext) linarith
  then show ?thesis by (simp add: filter_range_upt)
qed

lemma slice_of_nat:
  "slice xs (int a) (int b) = map (\<lambda>i. xs ! i) [a..<min b (length xs)]"
proof -
  have conv: "map (\<lambda>i. xs ! i) [a..<min b (length xs)] = drop a (take (min b (length xs)) xs)"
    by (rule map_upt_eqI) (simp_all add: drop_take)
  show ?thesis
  proof (cases "a \<le> length xs")
    case True
    then have "nat (min (int b) (int (length xs)) - int a) = min b (length xs) - a"
      by (auto simp: min_def)
    with True show ?thesis
      unfolding conv by (simp add: slice_def Let_def drop_take min_absorb1)
  next
    case False
    then show ?thesis
      unfolding conv by (simp add: slice_def Let_def min_absorb2)
  qed
qed

lemma slice_nonneg:
  assumes "0 \<le> s" "0 \<le> e"
  shows "slice xs s e = map (\<lambda>i. xs ! i) [nat s..<min (nat e) (length xs)]"
  using slice_of_nat [of xs "nat s" "nat e"] assms by simp

lemma rangeText_slice:
  assumes "0 \<le> s" "0 \<le> e"
  shows "join_empty (map tokenText (slice toks s e)) = rangeText toks s e"
  using assms by (simp add: join_empty_def rangeText_def slice_nonneg filter_int_range_upt comp_def)

lemma rangeText_full: "rangeText toks 0 (int (length toks)) = concat (map tokenText toks)"
proof -
  have "filter (\<lambda>i. 0 \<le> int i \<and> int i < int (length toks)) [0..<length toks] = [0..<length toks]"
    by (simp add: filter_id_conv)
  then have "rangeText toks 0 (int (length toks)) = concat (map (\<lambda>i. tokenText (toks ! i)) [0..<length toks])"
    by (simp add: rangeText_def)
  also have "map (\<lambda>i. tokenText (toks ! i)) [0..<length toks] = map tokenText toks"
    by (rule map_upt_eqI) simp_all
  finally show ?thesis .
qed

text \<open>
  C8, as amended: for every token sequence and every token range whose two indices are
  not negative, the first access of \<open>Excerpt.text\<close> yields the concatenation, in
  order, of the texts of the tokens whose index lies in \<open>[startIndex, endIndex)\<close>; for
  the full range it yields the concatenation of all tokens' texts; the access stores the
  string in the private field, a further access returns the same string and leaves the
  object as it is, and an access that finds the field defined returns it without looking
  at the tokens.
\<close>

theorem Excerpt_text_range:
  "(0 \<le> startIndex rng \<and> 0 \<le> endIndex rng \<longrightarrow>
      fst (Excerpt_text (new_Excerpt toks rng)) = rangeText toks (startIndex rng) (endIndex rng))
   \<and> fst (Excerpt_text (new_Excerpt toks \<lparr> startIndex = 0, endIndex = int (length toks) \<rparr>))
        = concat (map tokenText toks)
   \<and> cachedText (snd (Excerpt_text this)) = Some (fst (Excerpt_text this))
   \<and> Excerpt_text (snd (Excerpt_text this)) = Excerpt_text this
   \<and> (cachedText this = Some s \<longrightarrow> Excerpt_text this = (s, this))"
proof (intro conjI impI)
  assume "0 \<le> startIndex rng \<and> 0 \<le> endIndex rng"
  then show "fst (Excerpt_text (new_Excerpt toks rng)) = rangeText toks (startIndex rng) (endIndex rng)"
    by (simp add: Excerpt_text_def new_Excerpt_def computeText_def rangeText_slice Let_def)
next
  show "fst (Excerpt_text (new_Excerpt toks \<lparr> startIndex = 0, endIndex = int (length toks) \<rparr>))
        = concat (map tokenText toks)"
    by (simp add: Excerpt_text_def new_Excerpt_def computeText_def rangeText_slice rangeText_full Let_def)
next
  show "cachedText (snd (Excerpt_text this)) = Some (fst (Excerpt_text this))"
    by (simp add: Excerpt_text_def Let_def split: option.split)
next
  show "Excerpt_text (snd (Excerpt_text this)) = Excerpt_text this"
    by (simp add: Excerpt_text_def Let_def split: option.split)
next
  assume "cachedText this = Some s"
  then show "Excerpt_text this = (s, this)"
    by (simp add: Excerpt_text_def)
qed

text \<open>A run of the amended property on three tokens and the range \<open>[1, 5)\<close>.\<close>

theorem Excerpt_text_range_witness:
  "(0::int) \<le> 1 \<and> (0::int) \<le> 5
   \<and> fst (Excerpt_text (new_Excerpt
        [\<lparr> kind = Content, tokenText = ''a'' \<rparr>, \<lparr> kind = Content, tokenText = ''b'' \<rparr>,
         \<lparr> kind = Content, tokenText = ''c'' \<rparr>] \<lparr> startIndex = 1, endIndex = 5 \<rparr>)) = ''bc''
   \<and> rangeText
        [\<lparr> kind = Content, tokenText = ''a'' \<rparr>, \<lparr> kind = Content, tokenText = ''b'' \<rparr>,
         \<lparr> kind = Content, tokenText = ''c'' \<rparr>] 1 5 = ''bc''
   \<and> Excerpt_text \<lparr> tokenRange = \<lparr> startIndex = 0, endIndex = 0 \<rparr>, tokens = [],
        cachedText = Some ''kept'' \<rparr>
       = (''kept'', \<lparr> tokenRange = \<lparr> startIndex = 0, endIndex = 0 \<rparr>, tokens = [],
        cachedText = Some ''kept'' \<rparr>)"
  using Excerpt_text_range [of "\<lparr> startIndex = 1, endIndex = 5 \<rparr>"
      "[\<lparr> kind = Content, tokenText = ''a'' \<rparr>, \<lparr> kind = Content, tokenText = ''b'' \<rparr>,
        \<lparr> kind = Content, tokenText = ''c'' \<rparr>]"
      "\<lparr> tokenRange = \<lparr> startIndex = 0, endIndex = 0 \<rparr>, tokens = [], cachedText = Some ''kept'' \<rparr>"
      "''kept''"]
  by (simp add: rangeText_def upt_rec)

text \<open>
  C8 as stated fails for a negative index, which \<open>slice\<close> counts from the end: on
  three tokens the range \<open>[-1, 2)\<close> holds the tokens 0 and 1, but the excerpt's text
  is empty.
\<close>

theorem Excerpt_text_negative_start:
  "fst (Excerpt_text (new_Excerpt
      [\<lparr> kind = Content, tokenText = ''a'' \<rparr>, \<lparr> kind = Content, tokenText = ''b'' \<rparr>,
       \<lparr> kind = Content, tokenText = ''c'' \<rparr>] \<lparr> startIndex = -1, endIndex = 2 \<rparr>)) = []
   \<and> rangeText
      [\<lparr> kind = Content, tokenText = ''a'' \<rparr>, \<lparr> kind = Content, tokenText = ''b'' \<rparr>,
       \<lparr> kind = Content, tokenText = ''c'' \<rparr>] (-1) 2 = ''ab''"
  by (simp add: Excerpt_text_def new_Excerpt_def computeText_def slice_def join_empty_def rangeText_def upt_rec)

section \<open>The extractor front end\<close>

lemma firstOccurrencesFrom_index:
  "firstOccurrencesFrom toUpperCase seen ps =
     map (\<lambda>i. ps ! i)
       (filter (\<lambda>i. toUpperCase (ps ! i) \<notin> seen \<union> toUpperCase ` set (take i ps)) [0..<length ps])"
proof (induction ps arbitrary: seen)
  case Nil
  then show ?case by simp
next
  case (Cons p ps)
  have upt: "[0..<length (p # ps)] = 0 # map Suc [0..<length ps]"
    by (simp add: upt_conv_Cons map_Suc_upt del: upt_Suc)
  show ?case
  proof (cases "toUpperCase p \<in> seen")
    case True
    then have absorb: "(q \<notin> seen \<and> q \<noteq> toUpperCase p \<and> R) = (q \<notin> seen \<and> R)" for q R
      by auto
    from True show ?thesis
      unfolding upt by (simp add: Cons.IH filter_map comp_def absorb)
  next
    case False
    then show ?thesis
      unfolding upt by (simp add: Cons.IH filter_map comp_def conj_left_commute)
  qed
qed

lemma firstOccurrences_eq:
  "firstOccurrences toUpperCase ps = firstOccurrencesFrom toUpperCase {} ps"
  by (simp add: firstOccurrences_def firstOccurrencesFrom_index)

lemma loop_spec:
  "generateFilePathsForAnalysis_loop toUpperCase isAbs ps seen acc =
     (case find (\<lambda>p. \<not> isAbs p) (firstOccurrencesFrom toUpperCase seen ps) of
        Some p \<Rightarrow> Inl (InputFileNotAbsolute p)
      | None \<Rightarrow> Inr (acc @ filter declarationFileExtensionRegExp_test
                          (firstOccurrencesFrom toUpperCase seen ps)))"
  by (induction ps arbitrary: seen acc) (simp_all add: Let_def split: option.split)

text \<open>
  C10: for every input list, and whatever \<open>toUpperCase\<close> and \<open>path.isAbsolute\<close> compute,
  \<open>generateFilePathsForAnalysis\<close> throws when some path, at its first occurrence up
  to letter case (no earlier path has the same upper-case form), is not absolute,
  whether or not it is a declaration file; the error names the first such path.
  Otherwise it returns the paths that end in \<open>.d.ts\<close> (in any letter case) among the
  first occurrences, in the order of the input, so that paths with the same upper-case
  form give one entry.
\<close>

theorem generateFilePathsForAnalysis_spec:
  "generateFilePathsForAnalysis toUpperCase isAbsolute inputFilePaths =
     (case find (\<lambda>p. \<not> isAbsolute p) (firstOccurrences toUpperCase inputFilePaths) of
        Some p \<Rightarrow> Inl (InputFileNotAbsolute p)
      | None \<Rightarrow> Inr (filter declarationFileExtensionRegExp_test
                      (firstOccurrences toUpperCase inputFilePaths)))"
  by (simp add: generateFilePathsForAnalysis_def loop_spec firstOccurrences_eq cong: option.case_cong)

text \<open>A list with a path repeated in another letter case and two files that are no declaration files.\<close>

theorem generateFilePathsForAnalysis_spec_witness:
  "generateFilePathsForAnalysis ascii_toUpperCase posix_isAbsolute
     [''/a/x.d.ts'', ''/a/y.ts'', ''/A/X.D.TS'', ''/b/z.D.Ts'', ''/a/x.d.tsx'', ''/a/x.d.ts'']
     = Inr [''/a/x.d.ts'', ''/b/z.D.Ts'']
   \<and> firstOccurrences ascii_toUpperCase
       [''/a/x.d.ts'', ''/a/y.ts'', ''/A/X.D.TS'', ''/b/z.D.Ts'', ''/a/x.d.tsx'', ''/a/x.d.ts'']
     = [''/a/x.d.ts'', ''/a/y.ts'', ''/b/z.D.Ts'', ''/a/x.d.tsx'']
   \<and> generateFilePathsForAnalysis ascii_toUpperCase posix_isAbsolute
       [''/a/x.d.ts'', ''rel/y.ts'', ''other'']
     = Inl (InputFileNotAbsolute ''rel/y.ts'')"
  using generateFilePathsForAnalysis_spec [of ascii_toUpperCase posix_isAbsolute
      "[''/a/x.d.ts'', ''/a/y.ts'', ''/A/X.D.TS'', ''/b/z.D.Ts'', ''/a/x.d.tsx'', ''/a/x.d.ts'']"]
  by (simp add: generateFilePathsForAnalysis_def firstOccurrences_eq ascii_toUpperCase_def
      canonicalize_def declarationFileExtensionRegExp_test_def posix_isAbsolute_def)




section \<open>The symbol table\<close>

lemma andThen_simps [simp]:
  "andThen OutOfFuel f = OutOfFuel"
  "andThen (Throws e) f = Throws e"
  "andThen (Returns x) f = f x"
  by (simp_all add: andThen_def)

lemma flags_mask:
  "(x AND (a OR b OR c) \<noteq> 0) = (x AND a \<noteq> 0 \<or> x AND b \<noteq> 0 \<or> x AND c \<noteq> 0)"
  for x :: "32 word"
  by (simp add: bit.conj_disj_distrib or_eq_0_iff)

lemma fetchAstSymbol_discard:
  assumes "symbolFlags P (far_followedSymbol (followAliases P symbol)) AND SymbolFlags_TypeParameter \<noteq> 0
      \<or> symbolFlags P (far_followedSymbol (followAliases P symbol)) AND SymbolFlags_TypeLiteral \<noteq> 0
      \<or> symbolFlags P (far_followedSymbol (followAliases P symbol)) AND SymbolFlags_Transient \<noteq> 0
      \<or> far_isAmbient (followAliases P symbol)"
  shows "fetchAstSymbol (Suc fuel) P this symbol addIfMissing = Returns (None, this)"
  using assms by (auto simp: Let_def flags_mask)

text \<open>
  C5: when the followed symbol is a type parameter, a type literal or a transient
  symbol, or alias following reports the symbol as ambient, \<open>_fetchAstSymbol\<close>
  returns absent and leaves the table as it is, whatever \<open>addIfMissing\<close> is; resolving
  such a symbol any number of times returns absent every time and leaves the table as
  it is.
\<close>

theorem fetchAstSymbol_discards:
  assumes "symbolFlags P (far_followedSymbol (followAliases P symbol)) AND SymbolFlags_TypeParameter \<noteq> 0
      \<or> symbolFlags P (far_followedSymbol (followAliases P symbol)) AND SymbolFlags_TypeLiteral \<noteq> 0
      \<or> symbolFlags P (far_followedSymbol (followAliases P symbol)) AND SymbolFlags_Transient \<noteq> 0
      \<or> far_isAmbient (followAliases P symbol)"
  shows "fetchAstSymbol (Suc fuel) P this symbol addIfMissing = Returns (None, this)
    \<and> fetchRepeatedly n (Suc fuel) P this symbol addIfMissing = Returns (replicate n None, this)"
proof
  show one: "fetchAstSymbol (Suc fuel) P this symbol addIfMissing = Returns (None, this)"
    using assms by (rule fetchAstSymbol_discard)
  show "fetchRepeatedly n (Suc fuel) P this symbol addIfMissing = Returns (replicate n None, this)"
  proof (induction n)
    case 0
    show ?case by simp
  next
    case (Suc n)
    show ?case
      unfolding fetchRepeatedly.simps one using Suc.IH by simp
  qed
qed

lemmas example_defs =
  exampleProgram_def emptyTable_def lookupOr_def pkgExt_def importKey_def
  SymbolFlags_TypeParameter_def SymbolFlags_TypeLiteral_def SymbolFlags_Transient_def
  constructAstSymbol_def isNominalSymbol_def fetchParentAstSymbol_def registerAstSymbol_def
  createAstDeclaration_def new_AstSymbol_def new_AstDeclaration_def
  notifyDeclarationAttach_def notifyChildAttach_def updateAstSymbol_def updateAstDeclaration_def
  tryFindFirstAstDeclarationParent_def imported_def analyzed_def rootOf_def getAstSymbol_def
  getAstDeclaration_def ownerOf_def localNameOf_def Let_def

text \<open>
  The ambient symbol 5 of the small program, resolved once and twice in the empty
  table, and the type parameter 4, resolved in a table that holds \<open>Widget\<close>.
\<close>

theorem fetchAstSymbol_discards_witness:
  "far_isAmbient (followAliases exampleProgram 5)
   \<and> fetchAstSymbol 1 exampleProgram emptyTable 5 True = Returns (None, emptyTable)
   \<and> fetchRepeatedly (Suc (Suc 0)) 1 exampleProgram emptyTable 5 True = Returns ([None, None], emptyTable)
   \<and> symbolFlags exampleProgram (far_followedSymbol (followAliases exampleProgram 4))
        AND SymbolFlags_TypeParameter \<noteq> 0
   \<and> fetchAstSymbol 1 exampleProgram tableWithWidget 4 False = Returns (None, tableWithWidget)"
  using fetchAstSymbol_discards [of exampleProgram 5 0 emptyTable True "Suc (Suc 0)"]
    fetchAstSymbol_discards [of exampleProgram 4 0 tableWithWidget False 0]
  by (simp add: exampleProgram_def lookupOr_def SymbolFlags_TypeParameter_def)

text \<open>
  C1 is not what the code does: \<open>tryGetAstSymbol\<close> passes \<open>addIfMissing = false\<close>,
  but \<open>_fetchAstSymbol\<close> hands the flag to the call for the parent only and creates
  the missing entry all the same. In the empty table the lookup of \<open>Widget\<close>, which
  is not cached, returns a new \<open>AstSymbol\<close> and leaves the table
  \<open>tableWithWidget\<close>, with one symbol, one declaration and an entry in two of the maps.
\<close>

theorem tryGetAstSymbol_constructs:
  "astSymbolsBySymbol emptyTable 1 = None
   \<and> astSymbolObjects emptyTable = [] \<and> astDeclarationObjects emptyTable = []
   \<and> tryGetAstSymbol 1 exampleProgram emptyTable 1 = Returns (Some 0, tableWithWidget)
   \<and> length (astSymbolObjects tableWithWidget) = 1
   \<and> length (astDeclarationObjects tableWithWidget) = 1
   \<and> astSymbolsBySymbol tableWithWidget 1 = Some 0
   \<and> astDeclarationsByDeclaration tableWithWidget 101 = Some 0"
  by (simp add: tryGetAstSymbol_def tableWithWidget_def example_defs)

lemma tableWithWidget_reached:
  "fetchAstSymbol 1 exampleProgram emptyTable 1 True = Returns (Some 0, tableWithWidget)"
  by (simp add: tableWithWidget_def example_defs)

lemma tableWithExt_reached:
  "fetchAstSymbol 1 exampleProgram emptyTable 10 True = Returns (Some 0, tableWithExt)"
  by (simp add: tableWithExt_def example_defs)

lemma tableWithWidgetAndExt_reached:
  "fetchAstSymbol 1 exampleProgram tableWithWidget 10 True = Returns (Some 1, tableWithWidgetAndExt)"
  by (simp add: tableWithWidget_def tableWithWidgetAndExt_def example_defs)

subsection \<open>What the operations keep\<close>

lemma grows_refl [simp]: "grows this this"
  by (simp add: grows_def)

lemma grows_trans: "grows a b \<Longrightarrow> grows b c \<Longrightarrow> grows a c"
  unfolding grows_def by (metis (no_types, lifting) le_trans less_le_trans)

lemma grows_symbols_eq:
  "astSymbolObjects t = astSymbolObjects this \<Longrightarrow> grows this t"
  by (simp add: grows_def)

lemma grows_updateAstSymbol:
  assumes "\<And>x. core (f x) = core x" "\<And>x. analyzedFlag x \<Longrightarrow> analyzedFlag (f x)"
  shows "grows this (updateAstSymbol r f this)"
proof -
  have "core ((xs[r := f (xs ! r)]) ! ra) = core (xs ! ra)
      \<and> (analyzedFlag (xs ! ra) \<longrightarrow> analyzedFlag ((xs[r := f (xs ! r)]) ! ra))"
    if "ra < length xs" for ra and xs :: "AstSymbol list"
    using that by (cases "ra = r") (simp_all add: assms)
  then show ?thesis
    by (simp add: grows_def updateAstSymbol_def)
qed

lemma grows_updateAstDeclaration [simp]: "grows this (updateAstDeclaration d f this)"
  by (simp add: grows_symbols_eq updateAstDeclaration_def)

lemma grows_notifyAnalyzed [simp]: "grows this (notifyAnalyzed r this)"
  unfolding notifyAnalyzed_def by (rule grows_updateAstSymbol) (simp_all add: core_def)

lemma grows_notifyDeclarationAttach [simp]: "grows this (notifyDeclarationAttach r d this)"
  unfolding notifyDeclarationAttach_def by (rule grows_updateAstSymbol) (simp_all add: core_def)

lemma grows_notifyChildAttach:
  "notifyChildAttach p c this = Returns t \<Longrightarrow> grows this t"
  by (auto simp: notifyChildAttach_def split: if_splits)

lemma grows_notifyReferencedAstSymbol:
  "notifyReferencedAstSymbol d r this = Returns t \<Longrightarrow> grows this t"
  by (auto simp: notifyReferencedAstSymbol_def split: if_splits)

lemma grows_new_AstSymbol:
  "new_AstSymbol nm f i p rt nom this = (r, t) \<Longrightarrow> grows this t"
  by (auto simp: new_AstSymbol_def Let_def grows_def nth_append)

lemma andThen_Returns:
  "andThen m f = Returns y \<longleftrightarrow> (\<exists>x. m = Returns x \<and> f x = Returns y)"
  by (cases m) simp_all

lemma grows_new_AstDeclaration:
  assumes "new_AstDeclaration node s p this = Returns (d, t)"
  shows "grows this t"
proof -
  let ?stored = "this\<lparr>astDeclarationObjects := astDeclarationObjects this @
            [\<lparr> declarationNode = node, astSymbol = s, parent = p, children = [],
               referencedAstSymbols = [] \<rparr>]\<rparr>"
  let ?attached = "notifyDeclarationAttach s (length (astDeclarationObjects this)) ?stored"
  have a: "grows this ?stored" by (simp add: grows_symbols_eq)
  have b: "grows ?stored ?attached" by simp
  have c: "grows ?attached t"
    using assms
    by (auto simp: new_AstDeclaration_def Let_def andThen_Returns
          split: option.splits dest: grows_notifyChildAttach)
  from a b c show ?thesis by (blast intro: grows_trans)
qed

lemma grows_createAstDeclaration:
  assumes "createAstDeclaration P s p node this = Returns t"
  shows "grows this t"
proof -
  from assms obtain pd d t0 where new: "new_AstDeclaration node s pd this = Returns (d, t0)"
    and t: "t = t0\<lparr>astDeclarationsByDeclaration := (astDeclarationsByDeclaration t0)(node \<mapsto> d)\<rparr>"
    by (auto simp: createAstDeclaration_def andThen_Returns split: option.splits)
  have "grows t0 t" by (simp add: t grows_symbols_eq)
  with grows_new_AstDeclaration [OF new] show ?thesis by (blast intro: grows_trans)
qed

text \<open>A loop keeps what every run of its body keeps.\<close>

lemma forEach_preserves:
  assumes body: "\<And>x s s'. body x s = Returns s' \<Longrightarrow> R s s'"
    and refl: "\<And>s. R s s" and trans: "\<And>a b c. R a b \<Longrightarrow> R b c \<Longrightarrow> R a c"
    and run: "forEach xs body s = Returns s'"
  shows "R s s'"
  using run
proof (induction xs arbitrary: s)
  case Nil
  then show ?case by (simp add: refl)
next
  case (Cons x xs)
  from Cons.prems obtain s1 where s1: "body x s = Returns s1"
    and rest: "forEach xs body s1 = Returns s'"
    by (auto simp: andThen_Returns)
  have "R s s1" using s1 by (rule body)
  moreover have "R s1 s'" using rest by (rule Cons.IH)
  ultimately show ?case by (rule trans)
qed

lemma grows_forEach:
  assumes "\<And>x s s'. body x s = Returns s' \<Longrightarrow> grows s s'"
    and "forEach xs body s = Returns s'"
  shows "grows s s'"
  using assms(1) grows_refl grows_trans assms(2)
  by (rule forEach_preserves [where R = grows])

lemma getAstSymbol_grows:
  assumes "grows this t" "getAstSymbol this r = Some x"
  shows "\<exists>y. getAstSymbol t r = Some y \<and> core y = core x \<and> (analyzedFlag x \<longrightarrow> analyzedFlag y)"
  using assms by (auto simp: grows_def getAstSymbol_def split: if_splits)

lemma imported_grows:
  assumes "grows this t" "getAstSymbol this r = Some x" "getAstSymbol this (rootAstSymbol x) = Some z"
  shows "imported t r = imported this r"
proof -
  from getAstSymbol_grows [OF assms(1,2)] obtain y where
    y: "getAstSymbol t r = Some y" "core y = core x" by blast
  from getAstSymbol_grows [OF assms(1,3)] obtain z' where
    z': "getAstSymbol t (rootAstSymbol x) = Some z'" "core z' = core z" by blast
  from y z' assms(2,3) show ?thesis
    by (simp add: imported_def rootOf_def core_def)
qed

subsection \<open>Resolution keeps the symbols\<close>

lemma fetchParentAstSymbol_Returns:
  assumes "fetchParentAstSymbol fetchParent P this followed nom d ds b = Returns (parentSym, t)"
  shows "(parentSym = None \<and> t = this)
     \<or> (\<exists>parentSymbol p. \<not> nom \<and> fetchParent this parentSymbol b = Returns (Some p, t)
            \<and> parentSym = Some p)"
  using assms
  by (auto simp: fetchParentAstSymbol_def andThen_Returns split: if_splits option.splits)

lemma grows_fetchParentAstSymbol:
  assumes "\<And>t s b r t'. fetchParent t s b = Returns (r, t') \<Longrightarrow> grows t t'"
    and "fetchParentAstSymbol fetchParent P this followed nom d ds b = Returns (parentSym, t)"
  shows "grows this t"
  using fetchParentAstSymbol_Returns [OF assms(2)] assms(1) by auto

lemma registerAstSymbol_eq:
  "registerAstSymbol P far nom decls parentSym this =
     andThen (forEach decls (createAstDeclaration P (length (astSymbolObjects this)) parentSym)
                (registered far nom parentSym this))
       (\<lambda>t5. Returns (length (astSymbolObjects this), t5))"
  by (cases parentSym; cases "far_astImport far")
     (simp_all add: registerAstSymbol_def new_AstSymbol_def registered_def Let_def)

lemma grows_registered [simp]: "grows this (registered far nom parentSym this)"
  by (auto simp: grows_def registered_def nth_append)

lemma registerAstSymbol_Returns:
  assumes "registerAstSymbol P far nom decls parentSym this = Returns (r, t)"
  shows "r = length (astSymbolObjects this)"
    and "forEach decls (createAstDeclaration P r parentSym) (registered far nom parentSym this) = Returns t"
  using assms by (auto simp: registerAstSymbol_eq andThen_Returns)

lemma grows_registerAstSymbol:
  assumes "registerAstSymbol P far nom decls parentSym this = Returns (r, t)"
  shows "grows this t"
proof -
  have "grows (registered far nom parentSym this) t"
    using registerAstSymbol_Returns(2) [OF assms]
    by (rule grows_forEach [rotated]) (rule grows_createAstDeclaration)
  with grows_registered show ?thesis by (rule grows_trans)
qed

lemma constructAstSymbol_Returns:
  assumes "constructAstSymbol fetchParent P this far d ds b = Returns (r, t)"
  obtains parentSym t1 where
    "fetchParentAstSymbol fetchParent P this (far_followedSymbol far) (isNominalSymbol P d ds) d ds b
       = Returns (parentSym, t1)"
    "registerAstSymbol P far (isNominalSymbol P d ds) (d # ds) parentSym t1 = Returns (r, t)"
  using assms by (auto simp: constructAstSymbol_def Let_def andThen_Returns)

lemma grows_constructAstSymbol:
  assumes fp: "\<And>t s b r t'. fetchParent t s b = Returns (r, t') \<Longrightarrow> grows t t'"
    and run: "constructAstSymbol fetchParent P this far d ds b = Returns (r, t)"
  shows "grows this t"
proof -
  from run obtain parentSym t1 where
    1: "fetchParentAstSymbol fetchParent P this (far_followedSymbol far) (isNominalSymbol P d ds) d ds b
       = Returns (parentSym, t1)"
    and 2: "registerAstSymbol P far (isNominalSymbol P d ds) (d # ds) parentSym t1 = Returns (r, t)"
    by (rule constructAstSymbol_Returns)
  from grows_fetchParentAstSymbol [OF fp 1] grows_registerAstSymbol [OF 2]
  show ?thesis by (rule grows_trans)
qed

text \<open>
  A successful resolution, taken apart: the symbol was discarded, found by identity,
  found by its import key, or constructed; in the last three cases the check of lines
  393-403 has passed.
\<close>

lemma fetchAstSymbol_Returns:
  assumes "fetchAstSymbol (Suc fuel) P this symbol b = Returns (res, t)"
  shows "(res = None \<and> t = this \<and>
       (symbolFlags P (far_followedSymbol (followAliases P symbol)) AND
          (SymbolFlags_TypeParameter OR SymbolFlags_TypeLiteral OR SymbolFlags_Transient) \<noteq> 0
        \<or> far_isAmbient (followAliases P symbol)))
    \<or> (\<exists>r. res = Some r \<and> (far_astImport (followAliases P symbol) = None \<or> imported t r) \<and>
         ((astSymbolsBySymbol this (far_followedSymbol (followAliases P symbol)) = Some r \<and> t = this)
        \<or> (astSymbolsBySymbol this (far_followedSymbol (followAliases P symbol)) = None \<and>
            (\<exists>imp. far_astImport (followAliases P symbol) = Some imp \<and>
                   astSymbolsByImportKey this (importKey imp) = Some r) \<and>
            t = this\<lparr>astSymbolsBySymbol := (astSymbolsBySymbol this)
                    (far_followedSymbol (followAliases P symbol) \<mapsto> r)\<rparr>)
        \<or> (astSymbolsBySymbol this (far_followedSymbol (followAliases P symbol)) = None \<and>
            (\<exists>d ds. symbolDeclarations P (far_followedSymbol (followAliases P symbol)) = Some (d # ds) \<and>
                constructAstSymbol (fetchAstSymbol fuel P) P this (followAliases P symbol) d ds b
                  = Returns (r, t)))))"
proof -
  let ?far = "followAliases P symbol"
  let ?f = "far_followedSymbol ?far"
  let ?viaKey = "case far_astImport ?far of
      Some imp \<Rightarrow> astSymbolsByImportKey this (importKey imp) | None \<Rightarrow> None"
  show ?thesis
  proof (cases "symbolFlags P ?f AND
      (SymbolFlags_TypeParameter OR SymbolFlags_TypeLiteral OR SymbolFlags_Transient) \<noteq> 0
      \<or> far_isAmbient ?far")
    case True
    with assms have "res = None \<and> t = this"
      by (auto simp: Let_def split: if_splits)
    with True show ?thesis by simp
  next
    case False
    then have kept: "symbolFlags P ?f AND
        (SymbolFlags_TypeParameter OR SymbolFlags_TypeLiteral OR SymbolFlags_Transient) = 0"
        "\<not> far_isAmbient ?far"
      by simp_all
    show ?thesis
    proof (cases "astSymbolsBySymbol this ?f")
      case (Some r)
      with kept assms have "res = Some r \<and> t = this
          \<and> (far_astImport ?far = None \<or> imported t r)"
        by (auto simp: Let_def split: if_splits)
      with Some show ?thesis by auto
    next
      case miss: None
      show ?thesis
      proof (cases "symbolDeclarations P ?f")
        case None
        with assms kept miss show ?thesis by (simp add: Let_def)
      next
        case (Some decls)
        show ?thesis
        proof (cases decls)
          case Nil
          with assms kept miss Some show ?thesis by (simp add: Let_def)
        next
          case (Cons d ds)
          with Some have decls: "symbolDeclarations P ?f = Some (d # ds)" by simp
          show ?thesis
          proof (cases ?viaKey)
            case (Some r)
            then obtain imp where imp: "far_astImport ?far = Some imp"
              and key: "astSymbolsByImportKey this (importKey imp) = Some r"
              by (auto split: option.splits)
            let ?t = "this\<lparr>astSymbolsBySymbol := (astSymbolsBySymbol this)(?f \<mapsto> r)\<rparr>"
            have "fetchAstSymbol (Suc fuel) P this symbol b =
                (if \<not> imported ?t r then Throws (ImportedAfterNonImported (localNameOf ?t r))
                 else Returns (Some r, ?t))"
              using kept miss decls key imp by (simp add: Let_def)
            with assms have "res = Some r \<and> imported t r \<and> t = ?t"
              by (auto split: if_splits)
            with miss imp key show ?thesis by auto
          next
            case None
            from assms kept miss decls None
            have "\<exists>r. res = Some r \<and> (far_astImport ?far = None \<or> imported t r) \<and>
              constructAstSymbol (fetchAstSymbol fuel P) P this ?far d ds b = Returns (r, t)"
              by (auto simp: Let_def andThen_Returns split: if_splits)
            with miss decls show ?thesis by auto
          qed
        qed
      qed
    qed
  qed
qed

lemma grows_fetchAstSymbol:
  "fetchAstSymbol fuel P this symbol b = Returns (res, t) \<Longrightarrow> grows this t"
proof (induction fuel arbitrary: this symbol b res t)
  case 0
  then show ?case by simp
next
  case (Suc fuel)
  from fetchAstSymbol_Returns [OF Suc.prems]
  consider "astSymbolObjects t = astSymbolObjects this"
    | r d ds where "constructAstSymbol (fetchAstSymbol fuel P) P this (followAliases P symbol) d ds b
        = Returns (r, t)"
    by (elim disjE exE conjE) simp_all
  then show ?case
  proof cases
    case 1
    then show ?thesis by (rule grows_symbols_eq)
  next
    case 2
    then show ?thesis
      by (rule grows_constructAstSymbol [rotated]) (rule Suc.IH)
  qed
qed

subsection \<open>The import status\<close>

lemma fetchAstSymbol_registered:
  assumes "astSymbolsBySymbol this (far_followedSymbol (followAliases P symbol)) = Some r"
    and "symbolFlags P (far_followedSymbol (followAliases P symbol)) AND
           (SymbolFlags_TypeParameter OR SymbolFlags_TypeLiteral OR SymbolFlags_Transient) = 0"
    and "\<not> far_isAmbient (followAliases P symbol)"
  shows "fetchAstSymbol (Suc fuel) P this symbol addIfMissing =
     (if far_astImport (followAliases P symbol) \<noteq> None \<and> \<not> imported this r
      then Throws (ImportedAfterNonImported (localNameOf this r))
      else Returns (Some r, this))"
  using assms by (simp add: Let_def)

text \<open>
  C2, as amended: for a symbol whose followed symbol is registered in the identity map,
  a resolution that carries an import while the registered \<open>AstSymbol\<close> is not
  imported throws; a resolution that carries no import, or whose registered
  \<open>AstSymbol\<close> is imported, throws nothing: it returns the registered \<open>AstSymbol\<close>
  and leaves the table as it is. No resolution that returns changes whether an
  \<open>AstSymbol\<close> of the table is imported.
\<close>

theorem fetchAstSymbol_import_conflict:
  assumes "astSymbolsBySymbol this (far_followedSymbol (followAliases P symbol)) = Some r"
    and "symbolFlags P (far_followedSymbol (followAliases P symbol)) AND
           (SymbolFlags_TypeParameter OR SymbolFlags_TypeLiteral OR SymbolFlags_Transient) = 0"
    and "\<not> far_isAmbient (followAliases P symbol)"
  shows "(far_astImport (followAliases P symbol) \<noteq> None \<and> \<not> imported this r \<longrightarrow>
            fetchAstSymbol (Suc fuel) P this symbol addIfMissing
              = Throws (ImportedAfterNonImported (localNameOf this r)))
      \<and> (far_astImport (followAliases P symbol) = None \<or> imported this r \<longrightarrow>
            fetchAstSymbol (Suc fuel) P this symbol addIfMissing = Returns (Some r, this))
      \<and> (fetchAstSymbol fuel' P this symbol' addIfMissing' = Returns (res, t)
            \<and> getAstSymbol this r' = Some x \<and> getAstSymbol this (rootAstSymbol x) = Some z \<longrightarrow>
            imported t r' = imported this r')"
proof (intro conjI impI)
  assume "fetchAstSymbol fuel' P this symbol' addIfMissing' = Returns (res, t)
      \<and> getAstSymbol this r' = Some x \<and> getAstSymbol this (rootAstSymbol x) = Some z"
  then have run: "fetchAstSymbol fuel' P this symbol' addIfMissing' = Returns (res, t)"
    and x: "getAstSymbol this r' = Some x" and z: "getAstSymbol this (rootAstSymbol x) = Some z"
    by simp_all
  from grows_fetchAstSymbol [OF run] x z show "imported t r' = imported this r'"
    by (rule imported_grows)
qed (use fetchAstSymbol_registered [OF assms] in auto)

text \<open>
  \<open>Widget\<close> is registered as not imported and then reached through an import; the
  resolution of the imported class in between leaves \<open>Widget\<close> not imported.
\<close>

theorem fetchAstSymbol_import_conflict_witness:
  "astSymbolsBySymbol tableWithWidget (far_followedSymbol (followAliases exampleProgram 13)) = Some 0
   \<and> far_astImport (followAliases exampleProgram 13) \<noteq> None
   \<and> \<not> imported tableWithWidget 0
   \<and> fetchAstSymbol 1 exampleProgram tableWithWidget 13 True
       = Throws (ImportedAfterNonImported ''Widget'')
   \<and> fetchAstSymbol 1 exampleProgram tableWithWidget 10 True = Returns (Some 1, tableWithWidgetAndExt)
   \<and> \<not> imported tableWithWidgetAndExt 0"
  using fetchAstSymbol_import_conflict [of tableWithWidget exampleProgram 13 0 0 True
      1 10 True "Some 1" tableWithWidgetAndExt 0
      "\<lparr> localName = ''Widget'', followedSymbol = 1, astImport = None, nominal = False,
         parentAstSymbol = None, rootAstSymbol = 0, astDeclarations = [0], analyzedFlag = False \<rparr>"
      "\<lparr> localName = ''Widget'', followedSymbol = 1, astImport = None, nominal = False,
         parentAstSymbol = None, rootAstSymbol = 0, astDeclarations = [0], analyzedFlag = False \<rparr>"]
    tableWithWidgetAndExt_reached
  by (simp add: tableWithWidget_def exampleProgram_def lookupOr_def imported_def rootOf_def
      getAstSymbol_def localNameOf_def
      SymbolFlags_TypeParameter_def SymbolFlags_TypeLiteral_def SymbolFlags_Transient_def)

text \<open>
  C2 as stated fails in the other direction: the class of \<open>pkg\<close> is registered as
  imported (through symbol 10) and then resolved without an import (through symbol 12);
  nothing is thrown, the registered \<open>AstSymbol\<close> is returned.
\<close>

theorem fetchAstSymbol_imported_then_not:
  "fetchAstSymbol 1 exampleProgram emptyTable 10 True = Returns (Some 0, tableWithExt)
   \<and> imported tableWithExt 0
   \<and> far_astImport (followAliases exampleProgram 12) = None
   \<and> far_followedSymbol (followAliases exampleProgram 12)
       = far_followedSymbol (followAliases exampleProgram 10)
   \<and> fetchAstSymbol 1 exampleProgram tableWithExt 12 True = Returns (Some 0, tableWithExt)"
  by (simp add: tableWithExt_def example_defs)

subsection \<open>The new symbol\<close>

lemma isNominalSymbol_spec: "isNominalSymbol P d ds = nominalBySpecification P (d # ds)"
  by (auto simp: isNominalSymbol_def nominalBySpecification_def Let_def)

lemma getAstSymbol_registered:
  "getAstSymbol (registered far nom parentSym this) (length (astSymbolObjects this)) =
     Some \<lparr> localName = far_localName far, followedSymbol = far_followedSymbol far,
            astImport = far_astImport far, nominal = nom, parentAstSymbol = parentSym,
            rootAstSymbol = (case parentSym of Some p \<Rightarrow> rootOf this p
                              | None \<Rightarrow> length (astSymbolObjects this)),
            astDeclarations = [], analyzedFlag = False \<rparr>"
  by (simp add: getAstSymbol_def registered_def)

lemma registerAstSymbol_symbol:
  assumes "registerAstSymbol P far nom decls parentSym this = Returns (r, t)"
  shows "\<exists>y. getAstSymbol t r = Some y \<and> localName y = far_localName far
      \<and> followedSymbol y = far_followedSymbol far \<and> astImport y = far_astImport far
      \<and> nominal y = nom \<and> parentAstSymbol y = parentSym
      \<and> rootAstSymbol y = (case parentSym of Some p \<Rightarrow> rootOf this p | None \<Rightarrow> r)"
proof -
  have r: "r = length (astSymbolObjects this)"
    using assms by (rule registerAstSymbol_Returns)
  have "grows (registered far nom parentSym this) t"
    using registerAstSymbol_Returns(2) [OF assms]
    by (rule grows_forEach [rotated]) (rule grows_createAstDeclaration)
  from getAstSymbol_grows [OF this getAstSymbol_registered] show ?thesis
    unfolding r by (auto simp: core_def)
qed

lemma find_violation:
  assumes "\<exists>d \<in> set ds. \<not> Q d"
  shows "\<exists>d \<in> set ds. \<not> Q d \<and> find (\<lambda>d. \<not> Q d) ds = Some d"
  using assms by (induction ds) auto

text \<open>
  C6: when no lookup finds the followed symbol and \<open>_fetchAstSymbol\<close> returns, the
  symbol returned is a new \<open>AstSymbol\<close> for the followed symbol, and it is nominal
  exactly when the followed symbol has one declaration, a source file, or the source
  file of its first declaration belongs to an external library without documentation
  support; when it is not nominal and a declaration is not of a kind accepted by
  \<open>isAstDeclaration\<close>, the call throws the error that names the symbol and the kind
  of such a declaration.
\<close>

theorem fetchAstSymbol_constructs_nominal:
  assumes kept: "symbolFlags P (far_followedSymbol (followAliases P symbol)) AND
        (SymbolFlags_TypeParameter OR SymbolFlags_TypeLiteral OR SymbolFlags_Transient) = 0"
      "\<not> far_isAmbient (followAliases P symbol)"
    and miss: "astSymbolsBySymbol this (far_followedSymbol (followAliases P symbol)) = None"
    and nokey: "(case far_astImport (followAliases P symbol) of
          Some imp \<Rightarrow> astSymbolsByImportKey this (importKey imp) | None \<Rightarrow> None) = None"
    and decls: "symbolDeclarations P (far_followedSymbol (followAliases P symbol)) = Some declarations"
      "declarations \<noteq> []"
  shows "(fetchAstSymbol (Suc fuel) P this symbol addIfMissing = Returns (res, t) \<longrightarrow>
           (\<exists>r x. res = Some r \<and> getAstSymbol this r = None \<and> getAstSymbol t r = Some x
              \<and> followedSymbol x = far_followedSymbol (followAliases P symbol)
              \<and> nominal x = nominalBySpecification P declarations))
     \<and> (\<not> nominalBySpecification P declarations
          \<and> (\<exists>d \<in> set declarations. \<not> isAstDeclaration P (nodeKind P d)) \<longrightarrow>
           (\<exists>d \<in> set declarations. \<not> isAstDeclaration P (nodeKind P d) \<and>
              fetchAstSymbol (Suc fuel) P this symbol addIfMissing =
                Throws (UnimplementedLanguageFeature
                  (symbolName P (far_followedSymbol (followAliases P symbol))) (nodeKind P d))))"
proof (intro conjI impI)
  let ?far = "followAliases P symbol"
  let ?f = "far_followedSymbol ?far"
  from decls obtain d ds where ds: "declarations = d # ds" by (cases declarations) auto
  {
    assume run: "fetchAstSymbol (Suc fuel) P this symbol addIfMissing = Returns (res, t)"
    from fetchAstSymbol_Returns [OF run] kept miss nokey decls ds
    obtain r where res: "res = Some r"
      and con: "constructAstSymbol (fetchAstSymbol fuel P) P this ?far d ds addIfMissing = Returns (r, t)"
      by (auto simp: Let_def flags_mask)
    from con obtain parentSym t1 where
      1: "fetchParentAstSymbol (fetchAstSymbol fuel P) P this ?f (isNominalSymbol P d ds) d ds addIfMissing
         = Returns (parentSym, t1)"
      and 2: "registerAstSymbol P ?far (isNominalSymbol P d ds) (d # ds) parentSym t1 = Returns (r, t)"
      by (rule constructAstSymbol_Returns)
    have "grows this t1"
      using 1 by (rule grows_fetchParentAstSymbol [rotated]) (rule grows_fetchAstSymbol)
    moreover have "r = length (astSymbolObjects t1)"
      using 2 by (rule registerAstSymbol_Returns)
    ultimately have new: "getAstSymbol this r = None"
      by (simp add: grows_def getAstSymbol_def)
    from registerAstSymbol_symbol [OF 2] new res ds
    show "\<exists>r x. res = Some r \<and> getAstSymbol this r = None \<and> getAstSymbol t r = Some x
              \<and> followedSymbol x = ?f \<and> nominal x = nominalBySpecification P declarations"
      by (auto simp: isNominalSymbol_spec)
  }
  {
    assume "\<not> nominalBySpecification P declarations
          \<and> (\<exists>d \<in> set declarations. \<not> isAstDeclaration P (nodeKind P d))"
    then have nom: "\<not> isNominalSymbol P d ds"
      and bad: "\<exists>d' \<in> set (d # ds). \<not> isAstDeclaration P (nodeKind P d')"
      by (simp_all add: isNominalSymbol_spec ds)
    from find_violation [OF bad] obtain d' where d': "d' \<in> set (d # ds)"
      "\<not> isAstDeclaration P (nodeKind P d')"
      "find (\<lambda>d. \<not> isAstDeclaration P (nodeKind P d)) (d # ds) = Some d'"
      by blast
    have "constructAstSymbol (fetchAstSymbol fuel P) P this ?far d ds addIfMissing
        = Throws (UnimplementedLanguageFeature (symbolName P ?f) (nodeKind P d'))"
      using nom d'(3) by (simp add: constructAstSymbol_def fetchParentAstSymbol_def)
    then have "fetchAstSymbol (Suc fuel) P this symbol addIfMissing
        = Throws (UnimplementedLanguageFeature (symbolName P ?f) (nodeKind P d'))"
      using kept miss nokey decls ds by (simp add: Let_def)
    with d' ds
    show "\<exists>d \<in> set declarations. \<not> isAstDeclaration P (nodeKind P d) \<and>
              fetchAstSymbol (Suc fuel) P this symbol addIfMissing =
                Throws (UnimplementedLanguageFeature (symbolName P ?f) (nodeKind P d))"
      by blast
  }
qed

text \<open>
  The module of the file (one declaration, a source file) and the class from the
  external library become nominal, \<open>Widget\<close> does not, and the symbol declared by an
  unsupported construct is refused.
\<close>

theorem fetchAstSymbol_constructs_nominal_witness:
  "fetchAstSymbol 1 exampleProgram emptyTable 10 True = Returns (Some 0, tableWithExt)
   \<and> nominalBySpecification exampleProgram [200]
   \<and> nominal (astSymbolObjects tableWithExt ! 0)
   \<and> fetchAstSymbol 1 exampleProgram emptyTable 1 True = Returns (Some 0, tableWithWidget)
   \<and> \<not> nominalBySpecification exampleProgram [101]
   \<and> \<not> nominal (astSymbolObjects tableWithWidget ! 0)
   \<and> nominalBySpecification exampleProgram [100]
   \<and> \<not> nominalBySpecification exampleProgram [120]
   \<and> \<not> isAstDeclaration exampleProgram (nodeKind exampleProgram 120)
   \<and> fetchAstSymbol 1 exampleProgram emptyTable 31 True
       = Throws (UnimplementedLanguageFeature ''odd'' (OtherKind 0))"
  using fetchAstSymbol_constructs_nominal [of exampleProgram 10 emptyTable "[200]" 0 True
      "Some 0" tableWithExt]
    fetchAstSymbol_constructs_nominal [of exampleProgram 31 emptyTable "[120]" 0 True
      "Some 0" tableWithExt]
    tableWithExt_reached tableWithWidget_reached
  by (simp add: tableWithExt_def tableWithWidget_def exampleProgram_def lookupOr_def emptyTable_def
      nominalBySpecification_def getAstSymbol_def pkgExt_def
      SymbolFlags_TypeParameter_def SymbolFlags_TypeLiteral_def SymbolFlags_Transient_def)

subsection \<open>Import keys\<close>

lemma createAstDeclaration_maps:
  assumes "createAstDeclaration P s p node this = Returns t"
  shows "astSymbolsByImportKey t = astSymbolsByImportKey this
     \<and> astSymbolsBySymbol t = astSymbolsBySymbol this"
  using assms
  by (auto simp: createAstDeclaration_def new_AstDeclaration_def notifyDeclarationAttach_def
        notifyChildAttach_def updateAstSymbol_def updateAstDeclaration_def Let_def andThen_Returns
      split: option.splits if_splits)

lemma forEach_createAstDeclaration_maps:
  assumes "forEach ds (createAstDeclaration P s p) this = Returns t"
  shows "astSymbolsByImportKey t = astSymbolsByImportKey this
     \<and> astSymbolsBySymbol t = astSymbolsBySymbol this"
  by (rule forEach_preserves [where R = "\<lambda>a b. astSymbolsByImportKey b = astSymbolsByImportKey a
        \<and> astSymbolsBySymbol b = astSymbolsBySymbol a", OF _ _ _ assms])
     (auto dest: createAstDeclaration_maps)

lemma registerAstSymbol_maps:
  assumes "registerAstSymbol P far nom decls parentSym this = Returns (r, t)"
  shows "astSymbolsBySymbol t = (astSymbolsBySymbol this)(far_followedSymbol far \<mapsto> r)"
    and "far_astImport far = Some imp \<Longrightarrow>
         astSymbolsByImportKey t = (astSymbolsByImportKey this)(importKey imp \<mapsto> r)"
    and "far_astImport far = None \<Longrightarrow> astSymbolsByImportKey t = astSymbolsByImportKey this"
  using forEach_createAstDeclaration_maps [OF registerAstSymbol_Returns(2) [OF assms]]
    registerAstSymbol_Returns(1) [OF assms]
  by (simp_all add: registered_def)

text \<open>
  After a resolution that did not find the followed symbol in the identity map and that
  carried an import, the key of the import is mapped to the symbol returned, and this
  symbol is imported.
\<close>

lemma fetchAstSymbol_registers_key:
  assumes run: "fetchAstSymbol fuel P this symbol b = Returns (Some r, t)"
    and imp: "far_astImport (followAliases P symbol) = Some imp"
    and miss: "astSymbolsBySymbol this (far_followedSymbol (followAliases P symbol)) = None"
  shows "astSymbolsByImportKey t (importKey imp) = Some r \<and> imported t r"
proof (cases fuel)
  case 0
  with run show ?thesis by simp
next
  case (Suc n)
  let ?far = "followAliases P symbol"
  from fetchAstSymbol_Returns [OF run [unfolded Suc]] imp miss
  have imported: "imported t r" by auto
  from fetchAstSymbol_Returns [OF run [unfolded Suc]] imp miss
  consider "astSymbolsByImportKey this (importKey imp) = Some r"
      "t = this\<lparr>astSymbolsBySymbol := (astSymbolsBySymbol this)(far_followedSymbol ?far \<mapsto> r)\<rparr>"
    | d ds where "constructAstSymbol (fetchAstSymbol n P) P this ?far d ds b = Returns (r, t)"
    by auto
  then have "astSymbolsByImportKey t (importKey imp) = Some r"
  proof cases
    case 1
    then show ?thesis by simp
  next
    case 2
    then obtain parentSym t1 where
      "registerAstSymbol P ?far (isNominalSymbol P d ds) (d # ds) parentSym t1 = Returns (r, t)"
      by (rule constructAstSymbol_Returns)
    from registerAstSymbol_maps(2) [OF this imp] show ?thesis by simp
  qed
  with imported show ?thesis by simp
qed

lemma imported_bySymbol_update [simp]:
  "imported (this\<lparr>astSymbolsBySymbol := m\<rparr>) r = imported this r"
  by (simp add: imported_def rootOf_def getAstSymbol_def)

subsection \<open>Analysis\<close>

lemma grows_fetchAstSymbolForNode:
  "fetchAstSymbolForNode fuel P node this = Returns (res, t) \<Longrightarrow> grows this t"
  by (auto simp: fetchAstSymbolForNode_def split: if_splits option.splits
      dest: grows_fetchAstSymbol)

lemma grows_fetchAstDeclaration:
  "fetchAstDeclaration fuel P node this = Returns (res, t) \<Longrightarrow> grows this t"
  by (auto simp: fetchAstDeclaration_def andThen_Returns split: option.splits
      dest: grows_fetchAstSymbolForNode)

lemma grows_analyzeChildTree:
  "analyzeChildTree fuel P node g this = Returns t \<Longrightarrow> grows this t"
proof (induction fuel arbitrary: node g this t)
  case 0
  then show ?case by simp
next
  case (Suc fuel)
  show ?case
  proof (cases "nodeKind P node = JSDocComment")
    case True
    with Suc.prems show ?thesis by simp
  next
    case False
    with Suc.prems obtain t1 newGoverning t2 where
      refs: "(if nodeKind P node = TypeReference \<or> nodeKind P node = ExpressionWithTypeArguments
               \<or> nodeKind P node = ComputedPropertyName
           then
             (case findFirstChildNode P node Identifier of
                None \<Rightarrow> Returns this
              | Some symbolNode \<Rightarrow>
                  (case getSymbolAtLocation P symbolNode of
                     None \<Rightarrow> Throws (SymbolNotFoundForIdentifier (nodeText P symbolNode))
                   | Some symbol \<Rightarrow>
                       andThen (fetchAstSymbol fuel P this symbol True)
                         (\<lambda>(referencedAstSymbol, t).
                            case referencedAstSymbol of
                              None \<Rightarrow> Returns t
                            | Some r \<Rightarrow> notifyReferencedAstSymbol g r t)))
           else Returns this) = Returns t1"
      and decl: "fetchAstDeclaration fuel P node t1 = Returns (newGoverning, t2)"
      and kids: "forEach (nodeChildren P node)
                    (\<lambda>childNode. analyzeChildTree fuel P childNode
                         (case newGoverning of Some d \<Rightarrow> d | None \<Rightarrow> g)) t2 = Returns t"
      by (auto simp: andThen_Returns)
    have "grows this t1"
      using refs
      by (auto simp: andThen_Returns split: if_splits option.splits
          dest!: grows_fetchAstSymbol grows_notifyReferencedAstSymbol intro: grows_trans)
    moreover have "grows t1 t2" using decl by (rule grows_fetchAstDeclaration)
    moreover have "grows t2 t" using kids by (rule grows_forEach [rotated]) (rule Suc.IH)
    ultimately show ?thesis by (blast intro: grows_trans)
  qed
qed

lemma grows_forEachDeclarationRecursive_from:
  assumes action: "\<And>d s s'. action d s = Returns s' \<Longrightarrow> grows s s'"
  shows "forEachDeclarationRecursive_from fuel action d this = Returns t \<Longrightarrow> grows this t"
proof (induction fuel arbitrary: d this t)
  case 0
  then show ?case by simp
next
  case (Suc fuel)
  from Suc.prems obtain t1 and x :: AstDeclaration where 1: "action d this = Returns t1"
    and 2: "forEach (children x) (forEachDeclarationRecursive_from fuel action) t1 = Returns t"
    by (auto simp: andThen_Returns split: option.splits)
  have "grows this t1" using 1 by (rule action)
  moreover have "grows t1 t" using 2 by (rule grows_forEach [rotated]) (rule Suc.IH)
  ultimately show ?case by (rule grows_trans)
qed

lemma grows_forEachDeclarationRecursive:
  assumes action: "\<And>d s s'. action d s = Returns s' \<Longrightarrow> grows s s'"
    and run: "forEachDeclarationRecursive fuel r action this = Returns t"
  shows "grows this t"
proof -
  from run obtain x :: AstSymbol where
    "forEach (astDeclarations x) (forEachDeclarationRecursive_from fuel action) this = Returns t"
    by (auto simp: forEachDeclarationRecursive_def split: option.splits)
  then show ?thesis
    by (rule grows_forEach [rotated]) (rule grows_forEachDeclarationRecursive_from [OF action])
qed

lemma grows_analyze:
  "analyze fuel P r this = Returns t \<Longrightarrow> grows this t"
proof (induction fuel arbitrary: r this t)
  case 0
  then show ?case by simp
next
  case (Suc fuel)
  have referenced: "grows s s'" if "analyzeReferenced (analyze fuel P) d s = Returns s'" for d s s'
  proof -
    from that obtain y :: AstDeclaration where "forEach (referencedAstSymbols y)
            (\<lambda>referencedAstSymbol t.
               if \<not> imported t referencedAstSymbol
               then analyze fuel P referencedAstSymbol t
               else Returns t) s = Returns s'"
      by (auto simp: analyzeReferenced_def split: option.splits)
    then show ?thesis
      by (rule grows_forEach [rotated]) (auto split: if_splits dest: Suc.IH)
  qed
  from Suc.prems obtain x where x: "getAstSymbol this r = Some x"
    by (auto split: option.splits)
  show ?case
  proof (cases "analyzed this r \<or> nominal x")
    case True
    with Suc.prems x show ?thesis by (auto split: if_splits)
  next
    case False
    with Suc.prems x obtain rootX :: AstSymbol and t1 where
      trees: "forEach (astDeclarations rootX) (analyzeDeclarationTree fuel P) this = Returns t1"
      and rest: "(if astImport x = None then
                    forEachDeclarationRecursive fuel (rootAstSymbol x)
                      (analyzeReferenced (analyze fuel P)) (notifyAnalyzed (rootAstSymbol x) t1)
                  else Returns (notifyAnalyzed (rootAstSymbol x) t1)) = Returns t"
      by (auto simp: andThen_Returns Let_def split: option.splits)
    have "grows this t1"
      using trees
      by (rule grows_forEach [rotated])
         (auto simp: analyzeDeclarationTree_def split: option.splits dest: grows_analyzeChildTree)
    moreover have "grows t1 (notifyAnalyzed (rootAstSymbol x) t1)" by simp
    moreover have "grows (notifyAnalyzed (rootAstSymbol x) t1) t"
      using rest
      by (auto split: if_splits intro: grows_forEachDeclarationRecursive [OF referenced])
    ultimately show ?thesis by (blast intro: grows_trans)
  qed
qed

lemma getAstSymbol_notifyAnalyzed:
  "getAstSymbol (notifyAnalyzed r this) r' =
     (case getAstSymbol this r' of
        None \<Rightarrow> None
      | Some x \<Rightarrow> Some (if r' = r then x\<lparr>analyzedFlag := True\<rparr> else x))"
  by (simp add: getAstSymbol_def notifyAnalyzed_def updateAstSymbol_def)

lemma notifyAnalyzed_idem: "notifyAnalyzed r (notifyAnalyzed r this) = notifyAnalyzed r this"
  by (cases "r < length (astSymbolObjects this)")
     (simp_all add: notifyAnalyzed_def updateAstSymbol_def list_update_beyond)

lemma grows_analyzeReferenced:
  assumes "analyzeReferenced (analyze fuel P) d s = Returns s'"
  shows "grows s s'"
proof -
  from assms obtain y :: AstDeclaration where "forEach (referencedAstSymbols y)
          (\<lambda>referencedAstSymbol t.
             if \<not> imported t referencedAstSymbol
             then analyze fuel P referencedAstSymbol t
             else Returns t) s = Returns s'"
    by (auto simp: analyzeReferenced_def split: option.splits)
  then show ?thesis
    by (rule grows_forEach [rotated]) (auto split: if_splits dest: grows_analyze)
qed

lemma analyzed_root:
  assumes "getAstSymbol t r = Some y" "getAstSymbol t (rootAstSymbol y) = Some z"
  shows "analyzed t r = analyzedFlag z"
  using assms by (simp add: analyzed_def rootOf_def)

text \<open>
  C3: when a call of \<open>analyze\<close> for a symbol has completed, a further call for the
  same symbol returns at once and leaves the whole table, and so every symbol and every
  declaration in it, as it is.
\<close>

theorem analyze_idempotent:
  assumes "analyze fuel P r this = Returns t"
  shows "analyze (Suc fuel') P r t = Returns t"
proof (cases fuel)
  case 0
  with assms show ?thesis by simp
next
  case (Suc n)
  note run = assms [unfolded Suc]
  from run obtain x where x: "getAstSymbol this r = Some x"
    by (auto split: option.splits)
  have "grows this t" using assms by (rule grows_analyze)
  from getAstSymbol_grows [OF this x] obtain y where
    y: "getAstSymbol t r = Some y" and core: "core y = core x"
    by blast
  show ?thesis
  proof (cases "analyzed this r")
    case True
    with run x show ?thesis by auto
  next
    case notAnalyzed: False
    show ?thesis
    proof (cases "nominal x")
      case True
      with run x notAnalyzed have t: "t = notifyAnalyzed r this" by simp
      from True core have "nominal y" by (simp add: core_def)
      with y show ?thesis by (simp add: t notifyAnalyzed_idem)
    next
      case False
      let ?root = "rootAstSymbol x"
      from run x notAnalyzed False obtain rootX :: AstSymbol and t1 where
        rootX: "getAstSymbol this ?root = Some rootX"
        and trees: "forEach (astDeclarations rootX) (analyzeDeclarationTree n P) this = Returns t1"
        and rest: "(if astImport x = None then
                      forEachDeclarationRecursive n ?root
                        (analyzeReferenced (analyze n P)) (notifyAnalyzed ?root t1)
                    else Returns (notifyAnalyzed ?root t1)) = Returns t"
        by (auto simp: andThen_Returns Let_def split: option.splits)
      have "grows this t1"
        using trees
        by (rule grows_forEach [rotated])
           (auto simp: analyzeDeclarationTree_def split: option.splits dest: grows_analyzeChildTree)
      from getAstSymbol_grows [OF this rootX] obtain z1 where
        "getAstSymbol t1 ?root = Some z1" by blast
      then have marked: "getAstSymbol (notifyAnalyzed ?root t1) ?root
          = Some (z1\<lparr>analyzedFlag := True\<rparr>)"
        by (simp add: getAstSymbol_notifyAnalyzed)
      have "grows (notifyAnalyzed ?root t1) t"
        using rest
        by (auto split: if_splits
            intro: grows_forEachDeclarationRecursive [OF grows_analyzeReferenced])
      from getAstSymbol_grows [OF this marked] obtain z where
        z: "getAstSymbol t ?root = Some z" and flag: "analyzedFlag z"
        by auto
      from core have "rootAstSymbol y = ?root" by (simp add: core_def)
      with analyzed_root [OF y] z flag have "analyzed t r" by simp
      with y show ?thesis by simp
    qed
  qed
qed

lemmas analysis_defs =
  analyzeDeclarationTree_def analyzeReferenced_def forEachDeclarationRecursive_def
  fetchAstDeclaration_def fetchAstSymbolForNode_def notifyReferencedAstSymbol_def
  notifyAnalyzed_def

lemma analyzedTable_reached:
  "analyze 5 exampleProgram 0 tableWithWidget = Returns analyzedTable"
  by (simp add: analyzedTable_def tableWithWidget_def analysis_defs example_defs eval_nat_numeral)

text \<open>\<open>Widget\<close> is analyzed, which also analyzes \<open>Helper\<close>, and analyzed again.\<close>

theorem analyze_idempotent_witness:
  "analyze 5 exampleProgram 0 tableWithWidget = Returns analyzedTable
   \<and> analyze 1 exampleProgram 0 analyzedTable = Returns analyzedTable"
  using analyze_idempotent [of 5 exampleProgram 0 tableWithWidget analyzedTable 0]
    analyzedTable_reached
  by simp

subsection \<open>One symbol for an import key\<close>

text \<open>No call that returns removes or changes an entry of the identity map or of the import-key map.\<close>

lemma keeps_refl [simp]: "keeps this this"
  by (simp add: keeps_def)

lemma keeps_trans: "keeps a b \<Longrightarrow> keeps b c \<Longrightarrow> keeps a c"
  by (auto simp: keeps_def intro: map_le_trans)

lemma map_le_upd_miss: "m \<subseteq>\<^sub>m m' \<Longrightarrow> m k = None \<Longrightarrow> m \<subseteq>\<^sub>m m'(k \<mapsto> v)"
  by (auto simp: map_le_def dom_def)

lemma keeps_forEach:
  assumes "\<And>x s s'. body x s = Returns s' \<Longrightarrow> keeps s s'"
    and "forEach xs body s = Returns s'"
  shows "keeps s s'"
  using assms(1) keeps_refl keeps_trans assms(2)
  by (rule forEach_preserves [where R = keeps])

text \<open>The resolution that finds the followed symbol by its import key (lines 273-284).\<close>

lemma fetchAstSymbol_by_key:
  assumes "symbolFlags P (far_followedSymbol (followAliases P symbol)) AND
           (SymbolFlags_TypeParameter OR SymbolFlags_TypeLiteral OR SymbolFlags_Transient) = 0"
    and "\<not> far_isAmbient (followAliases P symbol)"
    and "astSymbolsBySymbol this (far_followedSymbol (followAliases P symbol)) = None"
    and "symbolDeclarations P (far_followedSymbol (followAliases P symbol)) = Some (d # ds)"
    and "far_astImport (followAliases P symbol) = Some imp"
    and "astSymbolsByImportKey this (importKey imp) = Some r"
    and "t = this\<lparr>astSymbolsBySymbol := (astSymbolsBySymbol this)
                    (far_followedSymbol (followAliases P symbol) \<mapsto> r)\<rparr>"
  shows "fetchAstSymbol (Suc fuel) P this symbol b =
     (if \<not> imported t r then Throws (ImportedAfterNonImported (localNameOf t r))
      else Returns (Some r, t))"
  using assms by (simp add: Let_def)

text \<open>
  How a resolution that returns changes the table: not at all, by an entry of the
  identity map for a followed symbol that had none, or by the construction of a symbol
  for a followed symbol that had no entry and whose import key, if any, had none.
\<close>

lemma fetchAstSymbol_tables:
  assumes run: "fetchAstSymbol (Suc fuel) P this symbol b = Returns (res, t)"
  obtains (same) "t = this"
  | (hit) r where "astSymbolsBySymbol this (far_followedSymbol (followAliases P symbol)) = None"
      "t = this\<lparr>astSymbolsBySymbol := (astSymbolsBySymbol this)
                    (far_followedSymbol (followAliases P symbol) \<mapsto> r)\<rparr>"
  | (new) r d ds where "astSymbolsBySymbol this (far_followedSymbol (followAliases P symbol)) = None"
      "\<And>imp. far_astImport (followAliases P symbol) = Some imp \<Longrightarrow>
          astSymbolsByImportKey this (importKey imp) = None"
      "constructAstSymbol (fetchAstSymbol fuel P) P this (followAliases P symbol) d ds b
         = Returns (r, t)"
proof -
  let ?far = "followAliases P symbol"
  let ?f = "far_followedSymbol ?far"
  from fetchAstSymbol_Returns [OF run]
  consider (a) "t = this"
    | (b) r where "astSymbolsBySymbol this ?f = None"
        "t = this\<lparr>astSymbolsBySymbol := (astSymbolsBySymbol this)(?f \<mapsto> r)\<rparr>"
    | (c) r d ds where "res = Some r" "astSymbolsBySymbol this ?f = None"
        "symbolDeclarations P ?f = Some (d # ds)"
        "constructAstSymbol (fetchAstSymbol fuel P) P this ?far d ds b = Returns (r, t)"
    by (elim disjE exE conjE) blast+
  then show thesis
  proof cases
    case a
    then show ?thesis by (rule same)
  next
    case b
    then show ?thesis by (rule hit)
  next
    case c
    have kept: "symbolFlags P ?f AND
        (SymbolFlags_TypeParameter OR SymbolFlags_TypeLiteral OR SymbolFlags_Transient) = 0"
      "\<not> far_isAmbient ?far"
      using run c(1) by (auto simp: Let_def split: if_splits)
    show ?thesis
    proof (cases "\<exists>imp r'. far_astImport ?far = Some imp \<and> astSymbolsByImportKey this (importKey imp) = Some r'")
      case True
      then obtain imp r' where imp: "far_astImport ?far = Some imp"
        and key: "astSymbolsByImportKey this (importKey imp) = Some r'" by blast
      from fetchAstSymbol_by_key [OF kept c(2) c(3) imp key refl, of fuel b] run
      have "t = this\<lparr>astSymbolsBySymbol := (astSymbolsBySymbol this)(?f \<mapsto> r')\<rparr>"
        by (auto split: if_splits)
      with c(2) show ?thesis by (rule hit)
    next
      case False
      then have "astSymbolsByImportKey this (importKey imp) = None"
        if "far_astImport ?far = Some imp" for imp
        using that by (cases "astSymbolsByImportKey this (importKey imp)") auto
      with c(2) show ?thesis using c(4) by (rule new)
    qed
  qed
qed

lemma keeps_fetchAstSymbol:
  "fetchAstSymbol fuel P this symbol b = Returns (res, t) \<Longrightarrow> keeps this t"
proof (induction fuel arbitrary: this symbol b res t)
  case 0
  then show ?case by simp
next
  case (Suc fuel)
  let ?far = "followAliases P symbol"
  let ?f = "far_followedSymbol ?far"
  from Suc.prems show ?case
  proof (cases rule: fetchAstSymbol_tables)
    case same
    then show ?thesis by simp
  next
    case (hit r)
    then show ?thesis by (simp add: keeps_def map_le_upd_miss)
  next
    case (new r d ds)
    from new(3) obtain parentSym t1 where
      fp: "fetchParentAstSymbol (fetchAstSymbol fuel P) P this ?f (isNominalSymbol P d ds) d ds b
         = Returns (parentSym, t1)"
      and reg: "registerAstSymbol P ?far (isNominalSymbol P d ds) (d # ds) parentSym t1 = Returns (r, t)"
      by (rule constructAstSymbol_Returns)
    have k1: "keeps this t1"
      using fetchParentAstSymbol_Returns [OF fp] by (auto dest: Suc.IH)
    have sym: "astSymbolsBySymbol this \<subseteq>\<^sub>m astSymbolsBySymbol t"
      using registerAstSymbol_maps(1) [OF reg] k1 new(1)
      by (simp add: keeps_def map_le_upd_miss)
    have key: "astSymbolsByImportKey this \<subseteq>\<^sub>m astSymbolsByImportKey t"
    proof (cases "far_astImport ?far")
      case None
      from registerAstSymbol_maps(3) [OF reg None] k1 show ?thesis by (simp add: keeps_def)
    next
      case (Some imp)
      from registerAstSymbol_maps(2) [OF reg Some] k1 new(2) [OF Some] show ?thesis
        by (simp add: keeps_def map_le_upd_miss)
    qed
    from sym key show ?thesis by (simp add: keeps_def)
  qed
qed

lemma keeps_notifyReferencedAstSymbol:
  "notifyReferencedAstSymbol d r this = Returns t \<Longrightarrow> keeps this t"
  by (auto simp: notifyReferencedAstSymbol_def updateAstDeclaration_def keeps_def split: if_splits)

lemma keeps_notifyAnalyzed [simp]: "keeps this (notifyAnalyzed r this)"
  by (simp add: keeps_def notifyAnalyzed_def updateAstSymbol_def)

lemma keeps_fetchAstSymbolForNode:
  "fetchAstSymbolForNode fuel P node this = Returns (res, t) \<Longrightarrow> keeps this t"
  by (auto simp: fetchAstSymbolForNode_def split: if_splits option.splits
      dest: keeps_fetchAstSymbol)

lemma keeps_fetchAstDeclaration:
  "fetchAstDeclaration fuel P node this = Returns (res, t) \<Longrightarrow> keeps this t"
  by (auto simp: fetchAstDeclaration_def andThen_Returns split: option.splits
      dest: keeps_fetchAstSymbolForNode)

lemma keeps_analyzeChildTree:
  "analyzeChildTree fuel P node g this = Returns t \<Longrightarrow> keeps this t"
proof (induction fuel arbitrary: node g this t)
  case 0
  then show ?case by simp
next
  case (Suc fuel)
  show ?case
  proof (cases "nodeKind P node = JSDocComment")
    case True
    with Suc.prems show ?thesis by simp
  next
    case False
    with Suc.prems obtain t1 newGoverning t2 where
      refs: "(if nodeKind P node = TypeReference \<or> nodeKind P node = ExpressionWithTypeArguments
               \<or> nodeKind P node = ComputedPropertyName
           then
             (case findFirstChildNode P node Identifier of
                None \<Rightarrow> Returns this
              | Some symbolNode \<Rightarrow>
                  (case getSymbolAtLocation P symbolNode of
                     None \<Rightarrow> Throws (SymbolNotFoundForIdentifier (nodeText P symbolNode))
                   | Some symbol \<Rightarrow>
                       andThen (fetchAstSymbol fuel P this symbol True)
                         (\<lambda>(referencedAstSymbol, t).
                            case referencedAstSymbol of
                              None \<Rightarrow> Returns t
                            | Some r \<Rightarrow> notifyReferencedAstSymbol g r t)))
           else Returns this) = Returns t1"
      and decl: "fetchAstDeclaration fuel P node t1 = Returns (newGoverning, t2)"
      and kids: "forEach (nodeChildren P node)
                    (\<lambda>childNode. analyzeChildTree fuel P childNode
                         (case newGoverning of Some d \<Rightarrow> d | None \<Rightarrow> g)) t2 = Returns t"
      by (auto simp: andThen_Returns)
    have "keeps this t1"
      using refs
      by (auto simp: andThen_Returns split: if_splits option.splits
          dest!: keeps_fetchAstSymbol keeps_notifyReferencedAstSymbol intro: keeps_trans)
    moreover have "keeps t1 t2" using decl by (rule keeps_fetchAstDeclaration)
    moreover have "keeps t2 t" using kids by (rule keeps_forEach [rotated]) (rule Suc.IH)
    ultimately show ?thesis by (blast intro: keeps_trans)
  qed
qed

lemma keeps_forEachDeclarationRecursive_from:
  assumes action: "\<And>d s s'. action d s = Returns s' \<Longrightarrow> keeps s s'"
  shows "forEachDeclarationRecursive_from fuel action d this = Returns t \<Longrightarrow> keeps this t"
proof (induction fuel arbitrary: d this t)
  case 0
  then show ?case by simp
next
  case (Suc fuel)
  from Suc.prems obtain t1 and x :: AstDeclaration where 1: "action d this = Returns t1"
    and 2: "forEach (children x) (forEachDeclarationRecursive_from fuel action) t1 = Returns t"
    by (auto simp: andThen_Returns split: option.splits)
  have "keeps this t1" using 1 by (rule action)
  moreover have "keeps t1 t" using 2 by (rule keeps_forEach [rotated]) (rule Suc.IH)
  ultimately show ?case by (rule keeps_trans)
qed

lemma keeps_forEachDeclarationRecursive:
  assumes action: "\<And>d s s'. action d s = Returns s' \<Longrightarrow> keeps s s'"
    and run: "forEachDeclarationRecursive fuel r action this = Returns t"
  shows "keeps this t"
proof -
  from run obtain x :: AstSymbol where
    "forEach (astDeclarations x) (forEachDeclarationRecursive_from fuel action) this = Returns t"
    by (auto simp: forEachDeclarationRecursive_def split: option.splits)
  then show ?thesis
    by (rule keeps_forEach [rotated]) (rule keeps_forEachDeclarationRecursive_from [OF action])
qed

lemma keeps_analyze:
  "analyze fuel P r this = Returns t \<Longrightarrow> keeps this t"
proof (induction fuel arbitrary: r this t)
  case 0
  then show ?case by simp
next
  case (Suc fuel)
  have referenced: "keeps s s'" if "analyzeReferenced (analyze fuel P) d s = Returns s'" for d s s'
  proof -
    from that obtain y :: AstDeclaration where "forEach (referencedAstSymbols y)
            (\<lambda>referencedAstSymbol t.
               if \<not> imported t referencedAstSymbol
               then analyze fuel P referencedAstSymbol t
               else Returns t) s = Returns s'"
      by (auto simp: analyzeReferenced_def split: option.splits)
    then show ?thesis
      by (rule keeps_forEach [rotated]) (auto split: if_splits dest: Suc.IH)
  qed
  from Suc.prems obtain x where x: "getAstSymbol this r = Some x"
    by (auto split: option.splits)
  show ?case
  proof (cases "analyzed this r \<or> nominal x")
    case True
    with Suc.prems x show ?thesis by (auto split: if_splits)
  next
    case False
    with Suc.prems x obtain rootX :: AstSymbol and t1 where
      trees: "forEach (astDeclarations rootX) (analyzeDeclarationTree fuel P) this = Returns t1"
      and rest: "(if astImport x = None then
                    forEachDeclarationRecursive fuel (rootAstSymbol x)
                      (analyzeReferenced (analyze fuel P)) (notifyAnalyzed (rootAstSymbol x) t1)
                  else Returns (notifyAnalyzed (rootAstSymbol x) t1)) = Returns t"
      by (auto simp: andThen_Returns Let_def split: option.splits)
    have "keeps this t1"
      using trees
      by (rule keeps_forEach [rotated])
         (auto simp: analyzeDeclarationTree_def split: option.splits dest: keeps_analyzeChildTree)
    moreover have "keeps t1 (notifyAnalyzed (rootAstSymbol x) t1)" by simp
    moreover have "keeps (notifyAnalyzed (rootAstSymbol x) t1) t"
      using rest
      by (auto split: if_splits intro: keeps_forEachDeclarationRecursive [OF referenced])
    ultimately show ?thesis by (blast intro: keeps_trans)
  qed
qed

lemma grows_perform: "perform P c this = Returns t \<Longrightarrow> grows this t"
  by (cases c) (auto simp: perform_def andThen_Returns dest: grows_fetchAstSymbol grows_analyze)

lemma keeps_perform: "perform P c this = Returns t \<Longrightarrow> keeps this t"
  by (cases c) (auto simp: perform_def andThen_Returns dest: keeps_fetchAstSymbol keeps_analyze)

lemma grows_calls:
  assumes "forEach cs (perform P) this = Returns t"
  shows "grows this t"
  using assms by (rule grows_forEach [rotated]) (rule grows_perform)

lemma keeps_calls:
  assumes "forEach cs (perform P) this = Returns t"
  shows "keeps this t"
  using assms by (rule keeps_forEach [rotated]) (rule keeps_perform)

lemma keeps_entry:
  assumes "keeps this t"
  shows "astSymbolsBySymbol this s = Some r \<Longrightarrow> astSymbolsBySymbol t s = Some r"
    and "astSymbolsByImportKey this k = Some r \<Longrightarrow> astSymbolsByImportKey t k = Some r"
  using assms by (metis keeps_def map_le_def domI)+

lemma imported_kept:
  assumes "grows this t" "imported this r"
  shows "imported t r"
proof -
  from assms(2) obtain x z where "getAstSymbol this r = Some x"
    "getAstSymbol this (rootAstSymbol x) = Some z"
    by (auto simp: imported_def rootOf_def split: option.splits)
  from imported_grows [OF assms(1) this] assms(2) show ?thesis by simp
qed

lemma bySymbol_update_same:
  "astSymbolsBySymbol t s = Some r \<Longrightarrow> t\<lparr>astSymbolsBySymbol := (astSymbolsBySymbol t)(s \<mapsto> r)\<rparr> = t"
  by (simp add: fun_upd_idem)

lemma tableWithExtAndWidget_reached:
  "forEach [Resolve 1 13 True, Resolve 1 12 False] (perform exampleProgram) tableWithExt
     = Returns tableWithExtAndWidget"
  by (simp add: perform_def tableWithExt_def tableWithExtAndWidget_def example_defs)

text \<open>
  C4, as amended: let two symbols carry, after alias following, imports with the same
  key, and let the resolution of the first return an \<open>AstSymbol\<close>, the followed symbol
  of the first being absent from the identity map before (or the key being mapped to
  that \<open>AstSymbol\<close> already). Then, after any calls of the table that return, the
  resolution of the second, if it is not discarded and its followed symbol is in the
  identity map for that \<open>AstSymbol\<close> or is absent from it and has a declaration,
  returns the identical \<open>AstSymbol\<close> and changes nothing but the identity map, which
  now maps the second followed symbol to it; and after any further calls that return,
  the identity map still does, and a resolution of the second symbol returns the same
  \<open>AstSymbol\<close> and changes nothing.
\<close>

theorem import_origin_dedup:
  assumes first: "fetchAstSymbol fuel P this symbol1 b1 = Returns (Some r, t1)"
    and imp1: "far_astImport (followAliases P symbol1) = Some imp1"
    and imp2: "far_astImport (followAliases P symbol2) = Some imp2"
    and key: "importKey imp1 = importKey imp2"
    and reg1: "astSymbolsBySymbol this (far_followedSymbol (followAliases P symbol1)) = None
        \<or> astSymbolsByImportKey this (importKey imp1) = Some r"
    and between: "forEach calls (perform P) t1 = Returns t"
    and kept2: "symbolFlags P (far_followedSymbol (followAliases P symbol2)) AND
        (SymbolFlags_TypeParameter OR SymbolFlags_TypeLiteral OR SymbolFlags_Transient) = 0"
      "\<not> far_isAmbient (followAliases P symbol2)"
    and reg2: "astSymbolsBySymbol t (far_followedSymbol (followAliases P symbol2)) = Some r
        \<or> astSymbolsBySymbol t (far_followedSymbol (followAliases P symbol2)) = None
          \<and> symbolDeclarations P (far_followedSymbol (followAliases P symbol2)) = Some declarations
          \<and> declarations \<noteq> []"
    and t2: "t2 = t\<lparr>astSymbolsBySymbol :=
        (astSymbolsBySymbol t)(far_followedSymbol (followAliases P symbol2) \<mapsto> r)\<rparr>"
    and after: "forEach calls' (perform P) t2 = Returns t3"
  shows "fetchAstSymbol (Suc fuel2) P t symbol2 b2 = Returns (Some r, t2)
     \<and> astSymbolsBySymbol t3 (far_followedSymbol (followAliases P symbol2)) = Some r
     \<and> fetchAstSymbol (Suc fuel3) P t3 symbol2 b3 = Returns (Some r, t3)"
proof -
  let ?f2 = "far_followedSymbol (followAliases P symbol2)"
  obtain n where fuel: "fuel = Suc n" using first by (cases fuel) auto
  from fetchAstSymbol_Returns [OF first [unfolded fuel]] imp1
  have imported1: "imported t1 r" by auto
  have "astSymbolsByImportKey t1 (importKey imp1) = Some r"
    using reg1
  proof
    assume "astSymbolsBySymbol this (far_followedSymbol (followAliases P symbol1)) = None"
    from fetchAstSymbol_registers_key [OF first imp1 this] show ?thesis by simp
  next
    assume "astSymbolsByImportKey this (importKey imp1) = Some r"
    with keeps_fetchAstSymbol [OF first] show ?thesis by (rule keeps_entry(2))
  qed
  with keeps_calls [OF between] key
  have mapped: "astSymbolsByImportKey t (importKey imp2) = Some r"
    by (simp add: keeps_entry(2))
  from grows_calls [OF between] imported1 have imported: "imported t r"
    by (rule imported_kept)
  then have imported2: "imported t2 r" by (simp add: t2)
  have second: "fetchAstSymbol (Suc fuel2) P t symbol2 b2 = Returns (Some r, t2)"
    using reg2
  proof (elim disjE conjE)
    assume hit: "astSymbolsBySymbol t ?f2 = Some r"
    then have "t2 = t" by (simp add: t2 bySymbol_update_same)
    with fetchAstSymbol_registered [OF hit kept2] imported show ?thesis by simp
  next
    assume miss: "astSymbolsBySymbol t ?f2 = None"
      and decls: "symbolDeclarations P ?f2 = Some declarations" "declarations \<noteq> []"
    from decls obtain d ds where "symbolDeclarations P ?f2 = Some (d # ds)"
      by (cases declarations) auto
    from fetchAstSymbol_by_key [OF kept2 miss this imp2 mapped t2] imported2
    show ?thesis by simp
  qed
  have hit2: "astSymbolsBySymbol t2 ?f2 = Some r" by (simp add: t2)
  with keeps_calls [OF after] have hit3: "astSymbolsBySymbol t3 ?f2 = Some r"
    by (rule keeps_entry(1))
  from grows_calls [OF after] imported2 have "imported t3 r" by (rule imported_kept)
  with fetchAstSymbol_registered [OF hit3 kept2]
  have "fetchAstSymbol (Suc fuel3) P t3 symbol2 b3 = Returns (Some r, t3)" by simp
  with second hit3 show ?thesis by simp
qed

text \<open>
  The class of \<open>pkg\<close> is resolved (symbol 10); then \<open>Widget\<close> is resolved through an
  import, which enters a second import key, and the class is reached without an import.
  After that the second copy of the class (symbol 11, not in the identity map) and the
  second import of the class (symbol 15, followed to the symbol of the first) resolve
  to the \<open>AstSymbol\<close> of the first, also after a further resolution and an analysis.
\<close>

theorem import_origin_dedup_witness:
  "fetchAstSymbol 1 exampleProgram emptyTable 10 True = Returns (Some 0, tableWithExt)
   \<and> forEach [Resolve 1 13 True, Resolve 1 12 False] (perform exampleProgram) tableWithExt
       = Returns tableWithExtAndWidget
   \<and> astSymbolsBySymbol tableWithExtAndWidget 21 = None
   \<and> fetchAstSymbol 1 exampleProgram tableWithExtAndWidget 11 False
       = Returns (Some 0, tableWithExtAndWidget\<lparr>astSymbolsBySymbol :=
            (astSymbolsBySymbol tableWithExtAndWidget)(21 \<mapsto> 0)\<rparr>)
   \<and> forEach [Resolve 1 10 True, Analyze 1 0] (perform exampleProgram)
         (tableWithExtAndWidget\<lparr>astSymbolsBySymbol :=
            (astSymbolsBySymbol tableWithExtAndWidget)(21 \<mapsto> 0)\<rparr>)
       = Returns (notifyAnalyzed 0 (tableWithExtAndWidget\<lparr>astSymbolsBySymbol :=
            (astSymbolsBySymbol tableWithExtAndWidget)(21 \<mapsto> 0)\<rparr>))
   \<and> fetchAstSymbol 1 exampleProgram
         (notifyAnalyzed 0 (tableWithExtAndWidget\<lparr>astSymbolsBySymbol :=
            (astSymbolsBySymbol tableWithExtAndWidget)(21 \<mapsto> 0)\<rparr>)) 11 False
       = Returns (Some 0, notifyAnalyzed 0 (tableWithExtAndWidget\<lparr>astSymbolsBySymbol :=
            (astSymbolsBySymbol tableWithExtAndWidget)(21 \<mapsto> 0)\<rparr>))
   \<and> astSymbolsBySymbol tableWithExtAndWidget 20 = Some 0
   \<and> fetchAstSymbol 1 exampleProgram tableWithExtAndWidget 15 False
       = Returns (Some 0, tableWithExtAndWidget)"
  using import_origin_dedup [of 1 exampleProgram emptyTable 10 True 0 tableWithExt pkgExt 11 pkgExt
      "[Resolve 1 13 True, Resolve 1 12 False]" tableWithExtAndWidget "[210]"
      "tableWithExtAndWidget\<lparr>astSymbolsBySymbol :=
            (astSymbolsBySymbol tableWithExtAndWidget)(21 \<mapsto> 0)\<rparr>"
      "[Resolve 1 10 True, Analyze 1 0]"
      "notifyAnalyzed 0 (tableWithExtAndWidget\<lparr>astSymbolsBySymbol :=
            (astSymbolsBySymbol tableWithExtAndWidget)(21 \<mapsto> 0)\<rparr>)"
      0 False 0 False]
    import_origin_dedup [of 1 exampleProgram emptyTable 10 True 0 tableWithExt pkgExt 15 pkgExt
      "[Resolve 1 13 True, Resolve 1 12 False]" tableWithExtAndWidget "[]"
      tableWithExtAndWidget "[]" tableWithExtAndWidget 0 False 0 False]
    tableWithExt_reached tableWithExtAndWidget_reached
  by (simp add: perform_def tableWithExtAndWidget_def exampleProgram_def lookupOr_def emptyTable_def
      imported_def analyzed_def rootOf_def getAstSymbol_def notifyAnalyzed_def updateAstSymbol_def
      SymbolFlags_TypeParameter_def SymbolFlags_TypeLiteral_def SymbolFlags_Transient_def)

text \<open>
  C4 as stated fails when a followed symbol is already registered for another
  \<open>AstSymbol\<close>: the class of \<open>pkg\<close> is first reached through \<open>facade\<close> (symbol 14),
  which registers the followed symbol of symbol 10 under another key. Then symbol 10
  and symbol 11, which carry the same key, resolve to two different \<open>AstSymbol\<close>
  objects, whether symbol 10 is resolved before symbol 11 or after it.
\<close>

theorem same_key_different_symbols:
  "far_astImport (followAliases exampleProgram 10) = Some pkgExt
   \<and> far_astImport (followAliases exampleProgram 11) = Some pkgExt
   \<and> far_followedSymbol (followAliases exampleProgram 10) \<noteq> far_followedSymbol (followAliases exampleProgram 11)
   \<and> fetchAstSymbol 1 exampleProgram emptyTable 14 True = Returns (Some 0, tableWithFacade)
   \<and> fetchAstSymbol 1 exampleProgram tableWithFacade 10 True = Returns (Some 0, tableWithFacade)
   \<and> fetchAstSymbol 1 exampleProgram tableWithFacade 11 True = Returns (Some 1, tableWithTwoExt)
   \<and> fetchAstSymbol 1 exampleProgram tableWithTwoExt 10 True = Returns (Some 0, tableWithTwoExt)"
  by (simp add: tableWithFacade_def tableWithTwoExt_def example_defs)

end
